theory Spec2Isabelle
  imports Main "HOL-Library.AList"
begin

section \<open>Data model\<close>

text \<open>
  The bridge of \<^verbatim>\<open>packages/examples/main/src/browser/main.ts\<close> connects an editor
  document to the JSON language service. A promise is modelled by the way it settles:
  \<open>Resolved v\<close> or \<open>Rejected reason\<close>.
\<close>

datatype 'a Promise = Resolved 'a | Rejected string

text \<open>\<^verbatim>\<open>promise.then(f)\<close> for a callback \<open>f\<close> that returns a plain value.\<close>

fun then_promise :: "'a Promise \<Rightarrow> ('a \<Rightarrow> 'b) \<Rightarrow> 'b Promise" where
  "then_promise (Resolved v) f = Resolved (f v)"
| "then_promise (Rejected e) f = Rejected e"

text \<open>
  The snapshot type of the language service (\<^verbatim>\<open>TextDocument\<close> of
  vscode-json-languageservice): the four arguments of \<^verbatim>\<open>TextDocument.create\<close>.
\<close>

record TextDocument =
  uri :: string
  languageId :: string
  version :: int
  getText :: string

text \<open>The editor side document (\<^verbatim>\<open>vscode.TextDocument\<close>), as far as the bridge reads it.\<close>

record VscodeTextDocument =
  vs_uri :: string
  vs_languageId :: string
  vs_version :: int
  vs_getText :: string

definition LANGUAGE_ID :: string where
  "LANGUAGE_ID = ''json''"

definition MODEL_URI :: string where
  "MODEL_URI = ''inmemory://model.json''"

text \<open>\<^verbatim>\<open>MONACO_URI = monaco.Uri.parse(MODEL_URI)\<close>: the parsed form of the same identifier.\<close>

definition MONACO_URI :: string where
  "MONACO_URI = MODEL_URI"

definition createDocument :: "VscodeTextDocument \<Rightarrow> TextDocument" where
  "createDocument vscodeDocument =
     \<lparr>uri = MODEL_URI, languageId = vs_languageId vscodeDocument,
      version = vs_version vscodeDocument, getText = vs_getText vscodeDocument\<rparr>"

section \<open>Schema retrieval\<close>

text \<open>
  \<^verbatim>\<open>resolveSchema\<close> opens one asynchronous GET request and registers two handlers:
  \<^verbatim>\<open>onload\<close> resolves with \<^verbatim>\<open>xhr.responseText\<close>, \<^verbatim>\<open>onerror\<close> rejects with
  \<^verbatim>\<open>xhr.statusText\<close>. The network is a parameter: for a URL it says which of the two
  events the request ends with and what the request object holds at that moment. (The
  code never calls \<^verbatim>\<open>abort\<close> and sets no \<^verbatim>\<open>timeout\<close>, so these are the two events a
  request of this function can end with.) The second component of the result lists
  the calls made on the request object.
\<close>

datatype XhrEvent = OnLoad | OnError

record XMLHttpRequest =
  responseText :: string
  statusText :: string

datatype XhrCall = XhrOpen string string bool | XhrSend

definition resolveSchema ::
  "(string \<Rightarrow> XhrEvent \<times> XMLHttpRequest) \<Rightarrow> string \<Rightarrow> string Promise \<times> XhrCall list" where
  "resolveSchema network url =
     (let (event, xhr) = network url in
      (case event of
         OnLoad \<Rightarrow> Resolved (responseText xhr)
       | OnError \<Rightarrow> Rejected (statusText xhr),
       [XhrOpen ''GET'' url True, XhrSend]))"

section \<open>Coordinate converter\<close>

text \<open>
  Positions and ranges of the two sides. Both are zero-based line and character
  numbers; the fields are natural numbers, so every value of the type is a valid
  position.
\<close>

record EditorPosition =
  ed_line :: nat
  ed_character :: nat

record ServicePosition =
  line :: nat
  character :: nat

record EditorRange =
  ed_start :: EditorPosition
  ed_end :: EditorPosition

record ServiceRange =
  range_start :: ServicePosition
  range_end :: ServicePosition

text \<open>
  Modelled from the spec: the converters are created by \<^verbatim>\<open>createCodeConverter()\<close> and
  \<^verbatim>\<open>createProtocolConverter(undefined, true, true)\<close> of vscode-languageclient, whose code
  is not part of the source file. The spec (4.1) describes them as pure functions that
  translate the representation only, with no semantic transformation of values:
  \<^verbatim>\<open>toServicePosition\<close> is \<^verbatim>\<open>codeConverter.asPosition\<close>, \<^verbatim>\<open>toEditorPosition\<close> is
  \<^verbatim>\<open>protocolConverter.asPosition\<close>, and likewise for ranges.
\<close>

definition codeConverter_asPosition :: "EditorPosition \<Rightarrow> ServicePosition" where
  "codeConverter_asPosition p = \<lparr>line = ed_line p, character = ed_character p\<rparr>"

definition protocolConverter_asPosition :: "ServicePosition \<Rightarrow> EditorPosition" where
  "protocolConverter_asPosition p = \<lparr>ed_line = line p, ed_character = character p\<rparr>"

definition codeConverter_asRange :: "EditorRange \<Rightarrow> ServiceRange" where
  "codeConverter_asRange r =
     \<lparr>range_start = codeConverter_asPosition (ed_start r),
      range_end = codeConverter_asPosition (ed_end r)\<rparr>"

definition protocolConverter_asRange :: "ServiceRange \<Rightarrow> EditorRange" where
  "protocolConverter_asRange r =
     \<lparr>ed_start = protocolConverter_asPosition (range_start r),
      ed_end = protocolConverter_asPosition (range_end r)\<rparr>"

section \<open>Capability adapters\<close>

text \<open>
  The engine's entry points and the result conversions are parameters of each adapter;
  the types of parsed documents and of results are type variables, since the bridge
  only passes them on. Each adapter returns its result together with the list of
  engine calls it made, in order, each with the snapshot it was given.
\<close>

datatype EngineCall =
    ParseJSONDocument TextDocument
  | DoComplete TextDocument ServicePosition
  | Format TextDocument ServiceRange
  | FindDocumentSymbols TextDocument
  | DoHover TextDocument ServicePosition
  | DoValidation TextDocument

fun call_document :: "EngineCall \<Rightarrow> TextDocument" where
  "call_document (ParseJSONDocument d) = d"
| "call_document (DoComplete d p) = d"
| "call_document (Format d r) = d"
| "call_document (FindDocumentSymbols d) = d"
| "call_document (DoHover d p) = d"
| "call_document (DoValidation d) = d"

definition provideCompletionItems ::
  "(TextDocument \<Rightarrow> 'j) \<Rightarrow> (TextDocument \<Rightarrow> ServicePosition \<Rightarrow> 'j \<Rightarrow> 'c Promise) \<Rightarrow> ('c \<Rightarrow> 'ec)
   \<Rightarrow> VscodeTextDocument \<Rightarrow> EditorPosition \<Rightarrow> 'ec Promise \<times> EngineCall list" where
  "provideCompletionItems parseJSONDocument doComplete asCompletionResult vscodeDocument position =
     (let document = createDocument vscodeDocument;
          jsonDocument = parseJSONDocument document;
          completionList = doComplete document (codeConverter_asPosition position) jsonDocument
      in (then_promise completionList asCompletionResult,
          [ParseJSONDocument document, DoComplete document (codeConverter_asPosition position)]))"

definition resolveCompletionItem ::
  "('ci \<Rightarrow> 'i Promise) \<Rightarrow> ('ei \<Rightarrow> 'ci) \<Rightarrow> ('i \<Rightarrow> 'ei) \<Rightarrow> 'ei \<Rightarrow> 'ei Promise" where
  "resolveCompletionItem doResolve code_asCompletionItem protocol_asCompletionItem item =
     then_promise (doResolve (code_asCompletionItem item)) (\<lambda>result. protocol_asCompletionItem result)"

definition provideDocumentRangeFormattingEdits ::
  "(TextDocument \<Rightarrow> ServiceRange \<Rightarrow> 'fo \<Rightarrow> 'e) \<Rightarrow> ('o \<Rightarrow> 'fo) \<Rightarrow> ('e \<Rightarrow> 'ee)
   \<Rightarrow> VscodeTextDocument \<Rightarrow> EditorRange \<Rightarrow> 'o \<Rightarrow> 'ee \<times> EngineCall list" where
  "provideDocumentRangeFormattingEdits format asFormattingOptions asTextEdits vscodeDocument rng options =
     (let document = createDocument vscodeDocument;
          edits = format document (codeConverter_asRange rng) (asFormattingOptions options)
      in (asTextEdits edits, [Format document (codeConverter_asRange rng)]))"

definition provideDocumentSymbols ::
  "(TextDocument \<Rightarrow> 'j) \<Rightarrow> (TextDocument \<Rightarrow> 'j \<Rightarrow> 'sy) \<Rightarrow> ('sy \<Rightarrow> 'es)
   \<Rightarrow> VscodeTextDocument \<Rightarrow> 'es \<times> EngineCall list" where
  "provideDocumentSymbols parseJSONDocument findDocumentSymbols asSymbolInformations vscodeDocument =
     (let document = createDocument vscodeDocument;
          jsonDocument = parseJSONDocument document
      in (asSymbolInformations (findDocumentSymbols document jsonDocument),
          [ParseJSONDocument document, FindDocumentSymbols document]))"

text \<open>
  \<^verbatim>\<open>protocolConverter.asHover\<close> is a parameter as well; its declared result type is
  \<^verbatim>\<open>Hover | undefined\<close>. The \<^verbatim>\<open>!\<close> after \<^verbatim>\<open>protocolConverter.asHover(hover)\<close> is a
  non-null assertion of the type checker and is erased on compilation: at run time the
  callback returns what the conversion returns.
\<close>

definition provideHover ::
  "(TextDocument \<Rightarrow> 'j) \<Rightarrow> (TextDocument \<Rightarrow> ServicePosition \<Rightarrow> 'j \<Rightarrow> 'h option Promise)
   \<Rightarrow> ('h option \<Rightarrow> 'eh option)
   \<Rightarrow> VscodeTextDocument \<Rightarrow> EditorPosition \<Rightarrow> 'eh option Promise \<times> EngineCall list" where
  "provideHover parseJSONDocument doHover asHover vscodeDocument position =
     (let document = createDocument vscodeDocument;
          jsonDocument = parseJSONDocument document
      in (then_promise (doHover document (codeConverter_asPosition position) jsonDocument)
            (\<lambda>hover. asHover hover),
          [ParseJSONDocument document, DoHover document (codeConverter_asPosition position)]))"

section \<open>Diagnostic channel\<close>

text \<open>
  Modelled from the spec: the diagnostic collection is created by
  \<^verbatim>\<open>vscode.languages.createDiagnosticCollection\<close>; its code is not part of the source
  file. By the spec (4.3), \<^verbatim>\<open>set(uri, diagnostics)\<close> replaces the full diagnostic set for
  \<open>uri\<close> and \<^verbatim>\<open>clear()\<close> removes all diagnostics for all URIs. The collection is a list
  of entries keyed by URI; the diagnostics visible for a URI are those of its entry.
\<close>

definition diagnostics_set ::
  "string \<Rightarrow> 'ed list \<Rightarrow> (string \<times> 'ed list) list \<Rightarrow> (string \<times> 'ed list) list" where
  "diagnostics_set u diagnostics coll = AList.update u diagnostics coll"

definition diagnostics_clear :: "(string \<times> 'ed list) list \<Rightarrow> (string \<times> 'ed list) list" where
  "diagnostics_clear coll = []"

definition visible_diagnostics :: "(string \<times> 'ed list) list \<Rightarrow> string \<Rightarrow> 'ed list" where
  "visible_diagnostics coll u = (case map_of coll u of None \<Rightarrow> [] | Some diagnostics \<Rightarrow> diagnostics)"

section \<open>Debounced validator\<close>

text \<open>
  The state of one editing session: the editor document, the map
  \<^verbatim>\<open>pendingValidationRequests\<close> (a JavaScript \<^verbatim>\<open>Map\<close>, kept as an association list in
  insertion order), the timers of \<^verbatim>\<open>window\<close> that are still active, the next timer
  handle, the clock in milliseconds, the diagnostic collection, the validation
  requests the engine has not answered yet, and the trace of the outside calls made
  so far. The only callback ever given to \<^verbatim>\<open>setTimeout\<close> is the closure of
  \<^verbatim>\<open>validate\<close>, so a timer's callback is represented by the snapshot the closure captured.
\<close>

record Timer =
  handle :: nat
  due :: nat
  callback :: TextDocument

datatype 'ed Effect =
    ClearTimeout nat
  | SetTimeout nat nat
  | ValidationPass TextDocument
  | Engine EngineCall
  | DiagnosticsClear
  | DiagnosticsSet string "'ed list"

record ('sd, 'ed) Bridge =
  vscodeDocument :: VscodeTextDocument
  pendingValidationRequests :: "(string \<times> nat) list"
  timers :: "Timer list"
  nextHandle :: nat
  now :: nat
  diagnosticCollection :: "(string \<times> 'ed list) list"
  inflight :: "'sd list Promise list"
  trace :: "'ed Effect list"

text \<open>The engine's validation entry points and the diagnostic conversion, as parameters.\<close>

record ('j, 'sd, 'ed) Services =
  parseJSONDocument :: "TextDocument \<Rightarrow> 'j"
  doValidation :: "TextDocument \<Rightarrow> 'j \<Rightarrow> 'sd list Promise"
  asDiagnostics :: "'sd list \<Rightarrow> 'ed list Promise"

text \<open>
  \<^verbatim>\<open>window.setTimeout(handler, timeout)\<close>: the timeout is optional and counts as 0 when
  it is left out. The call returns a fresh handle. \<^verbatim>\<open>window.clearTimeout(handle)\<close>
  removes the timer with that handle, if there is one.
\<close>

definition setTimeout ::
  "TextDocument \<Rightarrow> nat option \<Rightarrow> ('sd, 'ed) Bridge \<Rightarrow> nat \<times> ('sd, 'ed) Bridge" where
  "setTimeout cb timeout s =
     (let delay = (case timeout of None \<Rightarrow> 0 | Some d \<Rightarrow> d);
          h = nextHandle s
      in (h, s\<lparr>timers := timers s @ [\<lparr>handle = h, due = now s + delay, callback = cb\<rparr>],
                nextHandle := Suc h,
                trace := trace s @ [SetTimeout h delay]\<rparr>))"

definition clearTimeout :: "nat \<Rightarrow> ('sd, 'ed) Bridge \<Rightarrow> ('sd, 'ed) Bridge" where
  "clearTimeout h s =
     s\<lparr>timers := filter (\<lambda>t. handle t \<noteq> h) (timers s),
       trace := trace s @ [ClearTimeout h]\<rparr>"

definition cleanPendingValidation :: "TextDocument \<Rightarrow> ('sd, 'ed) Bridge \<Rightarrow> ('sd, 'ed) Bridge" where
  "cleanPendingValidation document s =
     (case map_of (pendingValidationRequests s) (uri document) of
        None \<Rightarrow> s
      | Some request \<Rightarrow>
          (let s1 = clearTimeout request s
           in s1\<lparr>pendingValidationRequests :=
                   AList.delete (uri document) (pendingValidationRequests s1)\<rparr>))"

text \<open>\<^verbatim>\<open>validate\<close> calls \<^verbatim>\<open>window.setTimeout\<close> with the callback alone: no timeout is given.\<close>

definition validate :: "('sd, 'ed) Bridge \<Rightarrow> ('sd, 'ed) Bridge" where
  "validate s =
     (let document = createDocument (vscodeDocument s);
          s1 = cleanPendingValidation document s;
          (request, s2) = setTimeout document None s1
      in s2\<lparr>pendingValidationRequests :=
              AList.update (uri document) request (pendingValidationRequests s2)\<rparr>)"

definition cleanDiagnostics :: "('sd, 'ed) Bridge \<Rightarrow> ('sd, 'ed) Bridge" where
  "cleanDiagnostics s =
     s\<lparr>diagnosticCollection := diagnostics_clear (diagnosticCollection s),
       trace := trace s @ [DiagnosticsClear]\<rparr>"

text \<open>
  \<^verbatim>\<open>doValidate\<close> up to the point where it returns: either the diagnostics are cleared,
  or the document is parsed and the engine's \<^verbatim>\<open>doValidation\<close> is called, whose promise
  is then waiting for its answer. The entry \<open>ValidationPass\<close> of the trace marks the call.
\<close>

definition doValidate ::
  "('j, 'sd, 'ed) Services \<Rightarrow> TextDocument \<Rightarrow> ('sd, 'ed) Bridge \<Rightarrow> ('sd, 'ed) Bridge" where
  "doValidate services document s =
     (let s0 = s\<lparr>trace := trace s @ [ValidationPass document]\<rparr>
      in if length (getText document) = 0 then cleanDiagnostics s0
         else (let jsonDocument = parseJSONDocument services document
               in s0\<lparr>inflight := inflight s0 @ [doValidation services document jsonDocument],
                     trace := trace s0 @ [Engine (ParseJSONDocument document),
                                          Engine (DoValidation document)]\<rparr>))"

text \<open>
  The continuation \<^verbatim>\<open>.then(async (pDiagnostics) => ...)\<close> of \<^verbatim>\<open>doValidate\<close>, run when the
  promise of \<^verbatim>\<open>doValidation\<close> settles: it does not run on a rejection, and it stops at the
  \<^verbatim>\<open>await\<close> when the conversion rejects.
\<close>

definition validationSettled ::
  "('j, 'sd, 'ed) Services \<Rightarrow> 'sd list Promise \<Rightarrow> ('sd, 'ed) Bridge \<Rightarrow> ('sd, 'ed) Bridge" where
  "validationSettled services promise s =
     (case promise of
        Rejected e \<Rightarrow> s
      | Resolved pDiagnostics \<Rightarrow>
          (case asDiagnostics services pDiagnostics of
             Rejected e \<Rightarrow> s
           | Resolved diagnostics \<Rightarrow>
               s\<lparr>diagnosticCollection :=
                    diagnostics_set MONACO_URI diagnostics (diagnosticCollection s),
                 trace := trace s @ [DiagnosticsSet MONACO_URI diagnostics]\<rparr>))"

text \<open>The callback that \<^verbatim>\<open>validate\<close> hands to \<^verbatim>\<open>setTimeout\<close>, with its captured snapshot.\<close>

definition timerCallback ::
  "('j, 'sd, 'ed) Services \<Rightarrow> TextDocument \<Rightarrow> ('sd, 'ed) Bridge \<Rightarrow> ('sd, 'ed) Bridge" where
  "timerCallback services document s =
     doValidate services document
       (s\<lparr>pendingValidationRequests :=
            AList.delete (uri document) (pendingValidationRequests s)\<rparr>)"

text \<open>
  What can happen to a session: the editor changes the buffer and notifies the listener
  of \<^verbatim>\<open>onDidChangeContent\<close>, which calls \<^verbatim>\<open>validate\<close> (the editor document then has
  the new text and the next version number); time passes; the browser runs an
  active timer that is due (a timer that was cleared, or that has fired, is gone);
  the engine answers a waiting validation request.
\<close>

datatype Event =
    ContentChanged string
  | Elapse nat
  | TimerFired nat
  | ValidationSettled nat

definition step ::
  "('j, 'sd, 'ed) Services \<Rightarrow> Event \<Rightarrow> ('sd, 'ed) Bridge \<Rightarrow> ('sd, 'ed) Bridge" where
  "step services e s =
     (case e of
        ContentChanged newText \<Rightarrow>
          validate (s\<lparr>vscodeDocument :=
                       (vscodeDocument s)\<lparr>vs_version := vs_version (vscodeDocument s) + 1,
                                          vs_getText := newText\<rparr>\<rparr>)
      | Elapse dt \<Rightarrow> s\<lparr>now := now s + dt\<rparr>
      | TimerFired h \<Rightarrow>
          (case find (\<lambda>t. handle t = h) (timers s) of
             None \<Rightarrow> s
           | Some t \<Rightarrow>
               if due t \<le> now s
               then timerCallback services (callback t)
                      (s\<lparr>timers := filter (\<lambda>t. handle t \<noteq> h) (timers s)\<rparr>)
               else s)
      | ValidationSettled i \<Rightarrow>
          if i < length (inflight s)
          then validationSettled services (inflight s ! i)
                 (s\<lparr>inflight := take i (inflight s) @ drop (Suc i) (inflight s)\<rparr>)
          else s)"

fun run :: "('j, 'sd, 'ed) Services \<Rightarrow> Event list \<Rightarrow> ('sd, 'ed) Bridge \<Rightarrow> ('sd, 'ed) Bridge" where
  "run services [] s = s"
| "run services (e # es) s = run services es (step services e s)"

text \<open>
  \<^verbatim>\<open>createEditor\<close> registers the providers and the change listener and then calls
  \<^verbatim>\<open>validate()\<close> once.
\<close>

definition createEditor :: "VscodeTextDocument \<Rightarrow> ('sd, 'ed) Bridge" where
  "createEditor vscodeDocument0 =
     validate \<lparr>vscodeDocument = vscodeDocument0, pendingValidationRequests = [], timers = [],
               nextHandle = 1, now = 0, diagnosticCollection = [], inflight = [], trace = []\<rparr>"

text \<open>The snapshots of the validation passes executed so far, in order.\<close>

fun validation_passes :: "'ed Effect list \<Rightarrow> TextDocument list" where
  "validation_passes [] = []"
| "validation_passes (ValidationPass d # es) = d # validation_passes es"
| "validation_passes (e # es) = validation_passes es"

text \<open>
  The state invariant of the validator: the map has exactly one entry for each active
  timer, there is at most one of them, its handle was issued before, it is due, and it
  carries a snapshot whose URI is \<open>MODEL_URI\<close>.
\<close>

definition pending_invariant :: "('sd, 'ed) Bridge \<Rightarrow> bool" where
  "pending_invariant s \<longleftrightarrow>
     length (timers s) \<le> 1 \<and>
     pendingValidationRequests s = map (\<lambda>t. (uri (callback t), handle t)) (timers s) \<and>
     list_all (\<lambda>t. handle t < nextHandle s \<and> due t \<le> now s \<and> uri (callback t) = MODEL_URI)
       (timers s)"

text \<open>Which events are buffer changes, which are timer runs, and the texts of the changes.\<close>

fun is_change :: "Event \<Rightarrow> bool" where
  "is_change (ContentChanged newText) = True"
| "is_change e = False"

fun is_fire :: "Event \<Rightarrow> bool" where
  "is_fire (TimerFired h) = True"
| "is_fire e = False"

fun changed_texts :: "Event list \<Rightarrow> string list" where
  "changed_texts [] = []"
| "changed_texts (ContentChanged newText # es) = newText # changed_texts es"
| "changed_texts (e # es) = changed_texts es"

text \<open>The delays of the \<^verbatim>\<open>setTimeout\<close> calls of a trace, in milliseconds.\<close>

fun scheduled_delays :: "'ed Effect list \<Rightarrow> nat list" where
  "scheduled_delays [] = []"
| "scheduled_delays (SetTimeout h delay # es) = delay # scheduled_delays es"
| "scheduled_delays (e # es) = scheduled_delays es"

text \<open>The snapshots a trace mentions: those validated and those given to the engine.\<close>

fun effect_documents :: "'ed Effect \<Rightarrow> TextDocument list" where
  "effect_documents (ValidationPass d) = [d]"
| "effect_documents (Engine c) = [call_document c]"
| "effect_documents e = []"

definition trace_documents :: "'ed Effect list \<Rightarrow> TextDocument list" where
  "trace_documents es = concat (map effect_documents es)"

text \<open>The time that passes during a list of events, in milliseconds.\<close>

fun elapsed_time :: "Event list \<Rightarrow> nat" where
  "elapsed_time [] = 0"
| "elapsed_time (Elapse dt # es) = dt + elapsed_time es"
| "elapsed_time (e # es) = elapsed_time es"

text \<open>
  The part of a trace that validation passes write: the start of a pass, the calls to
  the engine and the clearing of the diagnostics.
\<close>

fun is_pass_effect :: "'ed Effect \<Rightarrow> bool" where
  "is_pass_effect (ValidationPass d) = True"
| "is_pass_effect (Engine c) = True"
| "is_pass_effect DiagnosticsClear = True"
| "is_pass_effect e = False"

definition pass_effects :: "'ed Effect list \<Rightarrow> 'ed Effect list" where
  "pass_effects es = filter is_pass_effect es"

section \<open>Properties of the model\<close>

subsection \<open>Traces and runs\<close>

lemma validation_passes_append:
  "validation_passes (xs @ ys) = validation_passes xs @ validation_passes ys"
  by (induction xs rule: validation_passes.induct) simp_all

lemma scheduled_delays_append:
  "scheduled_delays (xs @ ys) = scheduled_delays xs @ scheduled_delays ys"
  by (induction xs rule: scheduled_delays.induct) simp_all

lemma changed_texts_append:
  "changed_texts (xs @ ys) = changed_texts xs @ changed_texts ys"
  by (induction xs rule: changed_texts.induct) simp_all

lemma run_append: "run services (xs @ ys) s = run services ys (run services xs s)"
  by (induction xs arbitrary: s) simp_all

lemma uri_createDocument: "uri (createDocument vd) = MODEL_URI"
  by (simp add: createDocument_def)

subsection \<open>What each operation leaves alone\<close>

lemma validate_frame:
  "now (validate s) = now s" "vscodeDocument (validate s) = vscodeDocument s"
  "diagnosticCollection (validate s) = diagnosticCollection s" "inflight (validate s) = inflight s"
  "validation_passes (trace (validate s)) = validation_passes (trace s)"
  by (simp_all add: validate_def cleanPendingValidation_def setTimeout_def clearTimeout_def
      Let_def validation_passes_append split: option.splits)

lemma doValidate_frame:
  "timers (doValidate services d s) = timers s"
  "pendingValidationRequests (doValidate services d s) = pendingValidationRequests s"
  "nextHandle (doValidate services d s) = nextHandle s"
  "now (doValidate services d s) = now s"
  "vscodeDocument (doValidate services d s) = vscodeDocument s"
  "validation_passes (trace (doValidate services d s)) = validation_passes (trace s) @ [d]"
  by (simp_all add: doValidate_def cleanDiagnostics_def Let_def validation_passes_append)

lemma validationSettled_frame:
  "timers (validationSettled services p s) = timers s"
  "pendingValidationRequests (validationSettled services p s) = pendingValidationRequests s"
  "nextHandle (validationSettled services p s) = nextHandle s"
  "now (validationSettled services p s) = now s"
  "vscodeDocument (validationSettled services p s) = vscodeDocument s"
  "validation_passes (trace (validationSettled services p s)) = validation_passes (trace s)"
  by (simp_all add: validationSettled_def validation_passes_append split: Promise.splits)

subsection \<open>The invariant holds in every reachable state\<close>

lemma validate_timers:
  assumes "pending_invariant s"
  shows "timers (validate s) =
           [\<lparr>handle = nextHandle s, due = now s, callback = createDocument (vscodeDocument s)\<rparr>]"
    and "pendingValidationRequests (validate s) = [(MODEL_URI, nextHandle s)]"
    and "nextHandle (validate s) = Suc (nextHandle s)"
proof -
  consider "timers s = []" | t where "timers s = [t]"
    using assms by (cases "timers s") (auto simp: pending_invariant_def)
  then have "timers (validate s) =
           [\<lparr>handle = nextHandle s, due = now s, callback = createDocument (vscodeDocument s)\<rparr>]
     \<and> pendingValidationRequests (validate s) = [(MODEL_URI, nextHandle s)]
     \<and> nextHandle (validate s) = Suc (nextHandle s)"
  proof cases
    case 1
    then show ?thesis using assms
      by (simp add: pending_invariant_def validate_def cleanPendingValidation_def
          setTimeout_def uri_createDocument Let_def)
  next
    case 2
    then show ?thesis using assms
      by (simp add: pending_invariant_def validate_def cleanPendingValidation_def
          setTimeout_def clearTimeout_def uri_createDocument Let_def)
  qed
  then show "timers (validate s) =
           [\<lparr>handle = nextHandle s, due = now s, callback = createDocument (vscodeDocument s)\<rparr>]"
    and "pendingValidationRequests (validate s) = [(MODEL_URI, nextHandle s)]"
    and "nextHandle (validate s) = Suc (nextHandle s)" by simp_all
qed

lemma inv_validate: "pending_invariant s \<Longrightarrow> pending_invariant (validate s)"
  using validate_timers[of s] validate_frame(1)[of s]
  by (simp add: pending_invariant_def uri_createDocument)

lemma inv_step: "pending_invariant s \<Longrightarrow> pending_invariant (step services e s)"
proof (cases e)
  case (ContentChanged newText)
  assume "pending_invariant s"
  then have "pending_invariant (s\<lparr>vscodeDocument :=
                       (vscodeDocument s)\<lparr>vs_version := vs_version (vscodeDocument s) + 1,
                                          vs_getText := newText\<rparr>\<rparr>)"
    by (simp add: pending_invariant_def)
  then show ?thesis using ContentChanged by (simp add: step_def inv_validate)
next
  case (Elapse dt)
  assume "pending_invariant s"
  then show ?thesis using Elapse
    by (auto simp: step_def pending_invariant_def list_all_iff)
next
  case (TimerFired h)
  assume inv: "pending_invariant s"
  consider "timers s = []" | t where "timers s = [t]"
    using inv by (cases "timers s") (auto simp: pending_invariant_def)
  then show ?thesis
  proof cases
    case 1
    then show ?thesis using inv TimerFired by (simp add: step_def)
  next
    case 2
    then show ?thesis using inv TimerFired
      by (simp add: step_def timerCallback_def pending_invariant_def doValidate_frame)
  qed
next
  case (ValidationSettled i)
  assume "pending_invariant s"
  then show ?thesis using ValidationSettled
    by (simp add: step_def pending_invariant_def validationSettled_frame)
qed

lemma inv_run: "pending_invariant s \<Longrightarrow> pending_invariant (run services es s)"
  by (induction es arbitrary: s) (simp_all add: inv_step)

lemma inv_createEditor: "pending_invariant (createEditor vd)"
  unfolding createEditor_def by (rule inv_validate) (simp add: pending_invariant_def)

subsection \<open>Bursts of changes and the timer they leave\<close>

lemma idle_step:
  assumes "\<not> is_fire e" and "\<not> is_change e"
  shows "timers (step services e s) = timers s"
    and "pendingValidationRequests (step services e s) = pendingValidationRequests s"
    and "vscodeDocument (step services e s) = vscodeDocument s"
  using assms by (cases e; simp add: step_def validationSettled_frame)+

lemma change_step:
  fixes services :: "('j, 'sd, 'ed) Services" and s s' :: "('sd, 'ed) Bridge" and newText :: string
  assumes "pending_invariant s"
  defines "s' \<equiv> step services (ContentChanged newText) s"
  shows "timers s' = [\<lparr>handle = nextHandle s' - 1, due = now s',
                       callback = createDocument (vscodeDocument s')\<rparr>]"
    and "pendingValidationRequests s' = [(MODEL_URI, nextHandle s' - 1)]"
    and "vs_getText (vscodeDocument s') = newText"
proof -
  define s2 where "s2 = s\<lparr>vscodeDocument :=
                       (vscodeDocument s)\<lparr>vs_version := vs_version (vscodeDocument s) + 1,
                                          vs_getText := newText\<rparr>\<rparr>"
  have s': "s' = validate s2" by (simp add: s'_def s2_def step_def)
  have inv2: "pending_invariant s2"
    using assms(1) by (simp add: s2_def pending_invariant_def)
  show "timers s' = [\<lparr>handle = nextHandle s' - 1, due = now s',
                       callback = createDocument (vscodeDocument s')\<rparr>]"
    using validate_timers[OF inv2] by (simp add: s' validate_frame)
  show "pendingValidationRequests s' = [(MODEL_URI, nextHandle s' - 1)]"
    using validate_timers[OF inv2] by (simp add: s')
  show "vs_getText (vscodeDocument s') = newText"
    by (simp add: s' validate_frame s2_def)
qed

lemma burst_timer:
  fixes services :: "('j, 'sd, 'ed) Services" and s :: "('sd, 'ed) Bridge"
  assumes "pending_invariant s"
  shows "\<not> list_ex is_fire es \<Longrightarrow> changed_texts es \<noteq> [] \<Longrightarrow>
     (\<exists>t. timers (run services es s) = [t] \<and>
          pendingValidationRequests (run services es s) = [(MODEL_URI, handle t)] \<and>
          callback t = createDocument (vscodeDocument (run services es s))) \<and>
     vs_getText (vscodeDocument (run services es s)) = last (changed_texts es)"
proof (induction es rule: rev_induct)
  case Nil
  then show ?case by simp
next
  case (snoc e es)
  define s1 where "s1 = run services es s"
  have run: "run services (es @ [e']) s = step services e' s1" for e'
    by (simp add: run_append s1_def)
  have inv1: "pending_invariant s1" unfolding s1_def using assms by (rule inv_run)
  show ?case
  proof (cases e)
    case (ContentChanged newText)
    show ?thesis
      unfolding run ContentChanged
      using change_step[OF inv1, of services newText]
      by (simp add: changed_texts_append)
  next
    case (Elapse dt)
    then have "changed_texts es \<noteq> []" and "\<not> list_ex is_fire es"
      using snoc.prems by (simp_all add: changed_texts_append)
    then show ?thesis
      unfolding run using snoc.IH Elapse idle_step[of e services s1]
      by (simp add: changed_texts_append s1_def)
  next
    case (TimerFired h)
    then show ?thesis using snoc.prems by simp
  next
    case (ValidationSettled i)
    then have "changed_texts es \<noteq> []" and "\<not> list_ex is_fire es"
      using snoc.prems by (simp_all add: changed_texts_append)
    then show ?thesis
      unfolding run using snoc.IH ValidationSettled idle_step[of e services s1]
      by (simp add: changed_texts_append s1_def)
  qed
qed

lemma pass_effects_append: "pass_effects (xs @ ys) = pass_effects xs @ pass_effects ys"
  by (simp add: pass_effects_def)

lemma validate_pass_effects: "pass_effects (trace (validate s)) = pass_effects (trace s)"
  by (simp add: validate_def cleanPendingValidation_def setTimeout_def clearTimeout_def
      Let_def pass_effects_def split: option.splits)

lemma validationSettled_pass_effects:
  "pass_effects (trace (validationSettled services p s)) = pass_effects (trace s)"
  by (simp add: validationSettled_def pass_effects_def split: Promise.splits)

lemma doValidate_effects:
  "trace (doValidate services d s) =
     trace s @ (if length (getText d) = 0 then [ValidationPass d, DiagnosticsClear]
                else [ValidationPass d, Engine (ParseJSONDocument d), Engine (DoValidation d)])"
  "inflight (doValidate services d s) =
     (if length (getText d) = 0 then inflight s
      else inflight s @ [doValidation services d (parseJSONDocument services d)])"
  "diagnosticCollection (doValidate services d s) =
     (if length (getText d) = 0 then [] else diagnosticCollection s)"
  by (simp_all add: doValidate_def cleanDiagnostics_def diagnostics_clear_def Let_def)

lemma quiet_step_effects:
  "\<not> is_fire e \<Longrightarrow> pass_effects (trace (step services e s)) = pass_effects (trace s)"
  by (cases e) (simp_all add: step_def validate_pass_effects validationSettled_pass_effects)

lemma quiet_run_effects:
  "\<not> list_ex is_fire es \<Longrightarrow> pass_effects (trace (run services es s)) = pass_effects (trace s)"
  by (induction es arbitrary: s) (simp_all add: quiet_step_effects)

lemma fired_no_effects:
  "timers s = [] \<Longrightarrow> \<not> list_ex is_change es \<Longrightarrow>
   timers (run services es s) = [] \<and>
   pass_effects (trace (run services es s)) = pass_effects (trace s)"
proof (induction es arbitrary: s)
  case Nil
  then show ?case by simp
next
  case (Cons e es)
  have "timers (step services e s) = [] \<and>
        pass_effects (trace (step services e s)) = pass_effects (trace s)"
    using Cons.prems
    by (cases e) (simp_all add: step_def validationSettled_frame validationSettled_pass_effects)
  then show ?case using Cons.IH[of "step services e s"] Cons.prems by simp
qed

lemma fire_step:
  assumes "timers s = [t]" and "due t \<le> now s"
  shows "step services (TimerFired (handle t)) s =
           doValidate services (callback t)
             (s\<lparr>timers := [],
                pendingValidationRequests :=
                  AList.delete (uri (callback t)) (pendingValidationRequests s)\<rparr>)"
  using assms by (simp add: step_def timerCallback_def)

lemma armed_run_effects:
  "timers s = [t] \<Longrightarrow> due t \<le> now s \<Longrightarrow> \<not> list_ex is_change es \<Longrightarrow>
   pass_effects (trace (run services es s)) =
     pass_effects (trace s) @
       (if TimerFired (handle t) \<in> set es
        then (if length (getText (callback t)) = 0
              then [ValidationPass (callback t), DiagnosticsClear]
              else [ValidationPass (callback t), Engine (ParseJSONDocument (callback t)),
                    Engine (DoValidation (callback t))])
        else [])"
proof (induction es arbitrary: s)
  case Nil
  then show ?case by simp
next
  case (Cons e es)
  show ?case
  proof (cases "e = TimerFired (handle t)")
    case True
    have "timers (step services e s) = []"
      using Cons.prems True by (simp add: fire_step doValidate_frame)
    moreover have "pass_effects (trace (step services e s)) =
        pass_effects (trace s) @
          (if length (getText (callback t)) = 0
              then [ValidationPass (callback t), DiagnosticsClear]
              else [ValidationPass (callback t), Engine (ParseJSONDocument (callback t)),
                    Engine (DoValidation (callback t))])"
      using Cons.prems True
      by (simp add: fire_step doValidate_effects pass_effects_append) (simp add: pass_effects_def)
    ultimately show ?thesis
      using fired_no_effects[of "step services e s" es services] Cons.prems True by simp
  next
    case False
    have "timers (step services e s) = [t] \<and> due t \<le> now (step services e s) \<and>
          pass_effects (trace (step services e s)) = pass_effects (trace s)"
      using Cons.prems False
      by (cases e) (simp_all add: step_def validationSettled_frame validationSettled_pass_effects)
    then show ?thesis using Cons.IH[of "step services e s"] Cons.prems False by simp
  qed
qed

lemma reschedule:
  assumes inv: "pending_invariant s" and tm: "timers s = [t]"
  shows "trace (validate s) = trace s @ [ClearTimeout (handle t), SetTimeout (nextHandle s) 0]"
    and "timers (cleanPendingValidation (createDocument vd) s) = []"
    and "pendingValidationRequests (cleanPendingValidation (createDocument vd) s) = []"
    and "pendingValidationRequests (step services (TimerFired (handle t)) s) = []"
    and "timers (step services (TimerFired (handle t)) s) = []"
  using assms
  by (simp_all add: pending_invariant_def validate_def cleanPendingValidation_def
      setTimeout_def clearTimeout_def uri_createDocument Let_def step_def timerCallback_def
      doValidate_frame)

subsection \<open>The snapshots of a trace\<close>

lemma validate_trace_documents:
  "trace_documents (trace (validate s)) = trace_documents (trace s)"
  by (simp add: validate_def cleanPendingValidation_def setTimeout_def clearTimeout_def
      Let_def trace_documents_def split: option.splits)

lemma doValidate_trace_documents:
  "set (trace_documents (trace (doValidate services d s))) \<subseteq> insert d (set (trace_documents (trace s)))"
  by (auto simp: doValidate_def cleanDiagnostics_def Let_def trace_documents_def)

lemma validationSettled_trace_documents:
  "trace_documents (trace (validationSettled services p s)) = trace_documents (trace s)"
  by (simp add: validationSettled_def trace_documents_def split: Promise.splits)

lemma documents_step:
  assumes inv: "pending_invariant s"
    and docs: "list_all (\<lambda>d. uri d = MODEL_URI) (trace_documents (trace s))"
  shows "list_all (\<lambda>d. uri d = MODEL_URI) (trace_documents (trace (step services e s)))"
proof (cases e)
  case (ContentChanged newText)
  then show ?thesis using docs by (simp add: step_def validate_trace_documents)
next
  case (Elapse dt)
  then show ?thesis using docs by (simp add: step_def)
next
  case (TimerFired h)
  show ?thesis
  proof (cases "find (\<lambda>t. handle t = h) (timers s)")
    case None
    then show ?thesis using docs TimerFired by (simp add: step_def)
  next
    case (Some t)
    then have "t \<in> set (timers s)" by (auto simp: find_Some_iff)
    then have "uri (callback t) = MODEL_URI"
      using inv by (auto simp: pending_invariant_def list_all_iff)
    then show ?thesis
      using docs TimerFired Some
        doValidate_trace_documents[of services "callback t"
          "s\<lparr>timers := filter (\<lambda>t. handle t \<noteq> h) (timers s),
             pendingValidationRequests := AList.delete (uri (callback t)) (pendingValidationRequests s)\<rparr>"]
      by (auto simp: step_def timerCallback_def list_all_iff)
  qed
next
  case (ValidationSettled i)
  then show ?thesis using docs by (simp add: step_def validationSettled_trace_documents)
qed

lemma documents_run:
  "pending_invariant s \<Longrightarrow> list_all (\<lambda>d. uri d = MODEL_URI) (trace_documents (trace s)) \<Longrightarrow>
   list_all (\<lambda>d. uri d = MODEL_URI) (trace_documents (trace (run services es s)))"
  by (induction es arbitrary: s) (simp_all add: inv_step documents_step)

lemma documents_createEditor:
  "list_all (\<lambda>d. uri d = MODEL_URI) (trace_documents (trace (createEditor vd)))"
  by (simp add: createEditor_def validate_trace_documents) (simp add: trace_documents_def)

section \<open>The claims\<close>

text \<open>
  C1, debounce coalescing, as amended. The timer has a delay of 0 and is due as soon as it
  is set, so what is coalesced does not depend on the time between the changes: it is
  the changes between which the pending timer has not run. A burst is a list of events
  in which no timer runs and at least one is a content change. From any reachable
  state, the burst leaves exactly one active timer, registered under \<open>MODEL_URI\<close> and
  already due; it carries the snapshot of the buffer as of the last change; the burst
  itself validates nothing. When that timer runs, one validation pass executes, on that
  snapshot: the diagnostics are cleared when its text is empty, otherwise the snapshot is
  parsed and given to the engine's \<^verbatim>\<open>doValidation\<close>, whose promise is then waiting. And
  whatever follows without a further change, once the timer has run that pass is the
  only one the burst has caused.
\<close>

theorem coalescing_until_timer_runs:
  fixes services :: "('j, 'sd, 'ed) Services" and s s' :: "('sd, 'ed) Bridge"
    and evs burst :: "Event list" and vd :: VscodeTextDocument
  assumes "\<not> list_ex is_fire burst" and "changed_texts burst \<noteq> []"
  defines "s \<equiv> run services evs (createEditor vd)"
  defines "s' \<equiv> run services burst s"
  shows "\<exists>t. timers s' = [t] \<and>
             pendingValidationRequests s' = [(MODEL_URI, handle t)] \<and>
             due t \<le> now s' \<and>
             callback t = createDocument (vscodeDocument s') \<and>
             getText (callback t) = last (changed_texts burst) \<and>
             pass_effects (trace s') = pass_effects (trace s) \<and>
             step services (TimerFired (handle t)) s' =
               doValidate services (callback t)
                 (s'\<lparr>timers := [], pendingValidationRequests := []\<rparr>) \<and>
             trace (step services (TimerFired (handle t)) s') =
               trace s' @
                 (if length (getText (callback t)) = 0
                  then [ValidationPass (callback t), DiagnosticsClear]
                  else [ValidationPass (callback t), Engine (ParseJSONDocument (callback t)),
                        Engine (DoValidation (callback t))]) \<and>
             inflight (step services (TimerFired (handle t)) s') =
               (if length (getText (callback t)) = 0 then inflight s'
                else inflight s' @
                  [doValidation services (callback t) (parseJSONDocument services (callback t))]) \<and>
             diagnosticCollection (step services (TimerFired (handle t)) s') =
               (if length (getText (callback t)) = 0 then [] else diagnosticCollection s') \<and>
             (\<forall>es. \<not> list_ex is_change es \<and> TimerFired (handle t) \<in> set es \<longrightarrow>
                pass_effects (trace (run services es s')) =
                  pass_effects (trace s) @
                    (if length (getText (callback t)) = 0
                     then [ValidationPass (callback t), DiagnosticsClear]
                     else [ValidationPass (callback t), Engine (ParseJSONDocument (callback t)),
                           Engine (DoValidation (callback t))]))"
proof -
  have inv: "pending_invariant s"
    unfolding s_def by (rule inv_run) (rule inv_createEditor)
  have inv': "pending_invariant s'"
    unfolding s'_def using inv by (rule inv_run)
  obtain t where tm: "timers s' = [t]"
    and pd: "pendingValidationRequests s' = [(MODEL_URI, handle t)]"
    and cb: "callback t = createDocument (vscodeDocument s')"
    and tx: "vs_getText (vscodeDocument s') = last (changed_texts burst)"
    using burst_timer[OF inv assms(1,2), of services] unfolding s'_def by blast
  have ps: "pass_effects (trace s') = pass_effects (trace s)"
    unfolding s'_def using assms(1) by (rule quiet_run_effects)
  have due: "due t \<le> now s'"
    using inv' tm by (simp add: pending_invariant_def)
  have gt: "getText (callback t) = last (changed_texts burst)"
    using cb tx by (simp add: createDocument_def)
  have ur: "uri (callback t) = MODEL_URI"
    using cb by (simp add: uri_createDocument)
  have fire: "step services (TimerFired (handle t)) s' =
               doValidate services (callback t)
                 (s'\<lparr>timers := [], pendingValidationRequests := []\<rparr>)"
    using fire_step[OF tm due, of services] by (simp add: pd ur)
  have tr: "trace (step services (TimerFired (handle t)) s') =
               trace s' @
                 (if length (getText (callback t)) = 0
                  then [ValidationPass (callback t), DiagnosticsClear]
                  else [ValidationPass (callback t), Engine (ParseJSONDocument (callback t)),
                        Engine (DoValidation (callback t))])"
    unfolding fire by (simp add: doValidate_effects)
  have inf: "inflight (step services (TimerFired (handle t)) s') =
               (if length (getText (callback t)) = 0 then inflight s'
                else inflight s' @
                  [doValidation services (callback t) (parseJSONDocument services (callback t))])"
    unfolding fire by (simp add: doValidate_effects)
  have dc: "diagnosticCollection (step services (TimerFired (handle t)) s') =
               (if length (getText (callback t)) = 0 then [] else diagnosticCollection s')"
    unfolding fire by (simp add: doValidate_effects)
  have later: "pass_effects (trace (run services es s')) =
                  pass_effects (trace s) @
                    (if length (getText (callback t)) = 0
                     then [ValidationPass (callback t), DiagnosticsClear]
                     else [ValidationPass (callback t), Engine (ParseJSONDocument (callback t)),
                           Engine (DoValidation (callback t))])"
    if "\<not> list_ex is_change es \<and> TimerFired (handle t) \<in> set es" for es
    using armed_run_effects[OF tm due, of es services] that ps by simp
  show ?thesis
    using tm pd due cb gt ps fire tr inf dc later by (intro exI[of _ t]) blast
qed

theorem coalescing_until_timer_runs_witness:
  "\<not> list_ex is_fire [ContentChanged ''{ '', Elapse 1, ContentChanged ''{}''] \<and>
   changed_texts [ContentChanged ''{ '', Elapse 1, ContentChanged ''{}''] \<noteq> [] \<and>
   trace (run
      (\<lparr>parseJSONDocument = \<lambda>d. (), doValidation = \<lambda>d j. Resolved ([] :: nat list),
        asDiagnostics = \<lambda>ds. Resolved ds\<rparr> :: (unit, nat, nat) Services)
      [ContentChanged ''{ '', Elapse 1, ContentChanged ''{}'', TimerFired 3]
      (createEditor \<lparr>vs_uri = ''inmemory://model.json'', vs_languageId = ''json'',
                     vs_version = 1, vs_getText = ''{''\<rparr>) :: (nat, nat) Bridge)
     = [SetTimeout 1 0, ClearTimeout 1, SetTimeout 2 0, ClearTimeout 2, SetTimeout 3 0,
        ValidationPass
          \<lparr>uri = ''inmemory://model.json'', languageId = ''json'', version = 3, getText = ''{}''\<rparr>,
        Engine (ParseJSONDocument
          \<lparr>uri = ''inmemory://model.json'', languageId = ''json'', version = 3, getText = ''{}''\<rparr>),
        Engine (DoValidation
          \<lparr>uri = ''inmemory://model.json'', languageId = ''json'', version = 3, getText = ''{}''\<rparr>)]"
proof -
  let ?sv = "\<lparr>parseJSONDocument = \<lambda>d. (), doValidation = \<lambda>d j. Resolved ([] :: nat list),
        asDiagnostics = \<lambda>ds. Resolved ds\<rparr> :: (unit, nat, nat) Services"
  let ?vd = "\<lparr>vs_uri = ''inmemory://model.json'', vs_languageId = ''json'',
                     vs_version = 1, vs_getText = ''{''\<rparr>"
  let ?burst = "[ContentChanged ''{ '', Elapse 1, ContentChanged ''{}'']"
  let ?d = "\<lparr>uri = ''inmemory://model.json'', languageId = ''json'', version = 3,
             getText = ''{}''\<rparr>"
  let ?s' = "run ?sv ?burst (run ?sv [] (createEditor ?vd)) :: (nat, nat) Bridge"
  have quiet: "\<not> list_ex is_fire ?burst" by simp
  have changes: "changed_texts ?burst \<noteq> []" by simp
  have tm: "timers ?s' = [\<lparr>handle = 3, due = 1, callback = ?d\<rparr>]"
    by (simp add: createEditor_def step_def validate_def cleanPendingValidation_def
        setTimeout_def clearTimeout_def createDocument_def MODEL_URI_def Let_def)
  have tr: "trace ?s' =
      [SetTimeout 1 0, ClearTimeout 1, SetTimeout 2 0, ClearTimeout 2, SetTimeout 3 0]"
    by (simp add: createEditor_def step_def validate_def cleanPendingValidation_def
        setTimeout_def clearTimeout_def createDocument_def MODEL_URI_def Let_def)
  from coalescing_until_timer_runs[OF quiet changes, of ?sv "[]" ?vd]
  obtain t where t: "timers ?s' = [t]"
    and fire: "trace (step ?sv (TimerFired (handle t)) ?s') =
               trace ?s' @
                 (if length (getText (callback t)) = 0
                  then [ValidationPass (callback t), DiagnosticsClear]
                  else [ValidationPass (callback t), Engine (ParseJSONDocument (callback t)),
                        Engine (DoValidation (callback t))])"
    by blast
  have t_eq: "t = \<lparr>handle = 3, due = 1, callback = ?d\<rparr>"
    using t tm by simp
  have "trace (step ?sv (TimerFired 3) ?s') =
      [SetTimeout 1 0, ClearTimeout 1, SetTimeout 2 0, ClearTimeout 2, SetTimeout 3 0,
       ValidationPass ?d, Engine (ParseJSONDocument ?d), Engine (DoValidation ?d)]"
    using fire unfolding t_eq tr by simp
  then have "trace (run ?sv (?burst @ [TimerFired 3]) (createEditor ?vd) :: (nat, nat) Bridge) =
      [SetTimeout 1 0, ClearTimeout 1, SetTimeout 2 0, ClearTimeout 2, SetTimeout 3 0,
       ValidationPass ?d, Engine (ParseJSONDocument ?d), Engine (DoValidation ?d)]"
    unfolding run_append by simp
  then show ?thesis using quiet changes by simp
qed

text \<open>
  The claim as stated makes the time between the changes the condition. Two changes with
  no time at all between them, and two changes 10 milliseconds apart, are each followed
  by a validation pass of their own when the timer runs in between: two passes, the first
  of them on the text of the first change.
\<close>

theorem debounce_coalescing_counterexample:
  "(let sv = (\<lparr>parseJSONDocument = \<lambda>d. (), doValidation = \<lambda>d j. Resolved ([] :: nat list),
               asDiagnostics = \<lambda>ds. Resolved ds\<rparr> :: (unit, nat, nat) Services);
        idle = (run sv [TimerFired 1]
                  (createEditor \<lparr>vs_uri = ''inmemory://model.json'', vs_languageId = ''json'', vs_version = 1, vs_getText = ''{''\<rparr>) :: (nat, nat) Bridge);
        burst = [ContentChanged ''{ '', TimerFired 2, ContentChanged ''{}''];
        spaced = [ContentChanged ''{ '', Elapse 10, TimerFired 2, ContentChanged ''{}'']
    in changed_texts burst = [''{ '', ''{}''] \<and> elapsed_time burst = 0 \<and>
       validation_passes (trace (run sv (burst @ [TimerFired 3]) idle)) =
         validation_passes (trace idle) @
           [\<lparr>uri = MODEL_URI, languageId = ''json'', version = 2, getText = ''{ ''\<rparr>,
            \<lparr>uri = MODEL_URI, languageId = ''json'', version = 3, getText = ''{}''\<rparr>] \<and>
       changed_texts spaced = [''{ '', ''{}''] \<and> elapsed_time spaced = 10 \<and>
       validation_passes (trace (run sv (spaced @ [Elapse 300, TimerFired 3]) idle)) =
         validation_passes (trace idle) @
           [\<lparr>uri = MODEL_URI, languageId = ''json'', version = 2, getText = ''{ ''\<rparr>,
            \<lparr>uri = MODEL_URI, languageId = ''json'', version = 3, getText = ''{}''\<rparr>])"
proof -
  let ?sv = "\<lparr>parseJSONDocument = \<lambda>d. (), doValidation = \<lambda>d j. Resolved ([] :: nat list),
               asDiagnostics = \<lambda>ds. Resolved ds\<rparr> :: (unit, nat, nat) Services"
  have a0: "createEditor \<lparr>vs_uri = ''inmemory://model.json'', vs_languageId = ''json'', vs_version = 1, vs_getText = ''{''\<rparr> =
      (\<lparr>vscodeDocument = \<lparr>vs_uri = ''inmemory://model.json'', vs_languageId = ''json'', vs_version = 1, vs_getText = ''{''\<rparr>,
         pendingValidationRequests = [(MODEL_URI, 1)], timers = [\<lparr>handle = 1, due = 0, callback = \<lparr>uri = MODEL_URI, languageId = ''json'', version = 1, getText = ''{''\<rparr>\<rparr>],
         nextHandle = 2, now = 0, diagnosticCollection = [], inflight = [],
         trace = [SetTimeout 1 0]\<rparr> :: (nat, nat) Bridge)"
    by (simp add: createEditor_def step_def validate_def cleanPendingValidation_def setTimeout_def
        clearTimeout_def createDocument_def timerCallback_def doValidate_def
        cleanDiagnostics_def Let_def)
  have a1: "step ?sv (TimerFired 1)
      (\<lparr>vscodeDocument = \<lparr>vs_uri = ''inmemory://model.json'', vs_languageId = ''json'', vs_version = 1, vs_getText = ''{''\<rparr>,
         pendingValidationRequests = [(MODEL_URI, 1)], timers = [\<lparr>handle = 1, due = 0, callback = \<lparr>uri = MODEL_URI, languageId = ''json'', version = 1, getText = ''{''\<rparr>\<rparr>],
         nextHandle = 2, now = 0, diagnosticCollection = [], inflight = [],
         trace = [SetTimeout 1 0]\<rparr> :: (nat, nat) Bridge) =
      (\<lparr>vscodeDocument = \<lparr>vs_uri = ''inmemory://model.json'', vs_languageId = ''json'', vs_version = 1, vs_getText = ''{''\<rparr>,
         pendingValidationRequests = [], timers = [],
         nextHandle = 2, now = 0, diagnosticCollection = [], inflight = [Resolved []],
         trace = [SetTimeout 1 0, ValidationPass \<lparr>uri = MODEL_URI, languageId = ''json'', version = 1, getText = ''{''\<rparr>, Engine (ParseJSONDocument \<lparr>uri = MODEL_URI, languageId = ''json'', version = 1, getText = ''{''\<rparr>), Engine (DoValidation \<lparr>uri = MODEL_URI, languageId = ''json'', version = 1, getText = ''{''\<rparr>)]\<rparr> :: (nat, nat) Bridge)"
    by (simp add: createEditor_def step_def validate_def cleanPendingValidation_def setTimeout_def
        clearTimeout_def createDocument_def timerCallback_def doValidate_def
        cleanDiagnostics_def Let_def)
  have a2: "step ?sv (ContentChanged ''{ '')
      (\<lparr>vscodeDocument = \<lparr>vs_uri = ''inmemory://model.json'', vs_languageId = ''json'', vs_version = 1, vs_getText = ''{''\<rparr>,
         pendingValidationRequests = [], timers = [],
         nextHandle = 2, now = 0, diagnosticCollection = [], inflight = [Resolved []],
         trace = [SetTimeout 1 0, ValidationPass \<lparr>uri = MODEL_URI, languageId = ''json'', version = 1, getText = ''{''\<rparr>, Engine (ParseJSONDocument \<lparr>uri = MODEL_URI, languageId = ''json'', version = 1, getText = ''{''\<rparr>), Engine (DoValidation \<lparr>uri = MODEL_URI, languageId = ''json'', version = 1, getText = ''{''\<rparr>)]\<rparr> :: (nat, nat) Bridge) =
      (\<lparr>vscodeDocument = \<lparr>vs_uri = ''inmemory://model.json'', vs_languageId = ''json'', vs_version = 2, vs_getText = ''{ ''\<rparr>,
         pendingValidationRequests = [(MODEL_URI, 2)], timers = [\<lparr>handle = 2, due = 0, callback = \<lparr>uri = MODEL_URI, languageId = ''json'', version = 2, getText = ''{ ''\<rparr>\<rparr>],
         nextHandle = 3, now = 0, diagnosticCollection = [], inflight = [Resolved []],
         trace = [SetTimeout 1 0, ValidationPass \<lparr>uri = MODEL_URI, languageId = ''json'', version = 1, getText = ''{''\<rparr>, Engine (ParseJSONDocument \<lparr>uri = MODEL_URI, languageId = ''json'', version = 1, getText = ''{''\<rparr>), Engine (DoValidation \<lparr>uri = MODEL_URI, languageId = ''json'', version = 1, getText = ''{''\<rparr>), SetTimeout 2 0]\<rparr> :: (nat, nat) Bridge)"
    by (simp add: createEditor_def step_def validate_def cleanPendingValidation_def setTimeout_def
        clearTimeout_def createDocument_def timerCallback_def doValidate_def
        cleanDiagnostics_def Let_def)
  have a3: "step ?sv (TimerFired 2)
      (\<lparr>vscodeDocument = \<lparr>vs_uri = ''inmemory://model.json'', vs_languageId = ''json'', vs_version = 2, vs_getText = ''{ ''\<rparr>,
         pendingValidationRequests = [(MODEL_URI, 2)], timers = [\<lparr>handle = 2, due = 0, callback = \<lparr>uri = MODEL_URI, languageId = ''json'', version = 2, getText = ''{ ''\<rparr>\<rparr>],
         nextHandle = 3, now = 0, diagnosticCollection = [], inflight = [Resolved []],
         trace = [SetTimeout 1 0, ValidationPass \<lparr>uri = MODEL_URI, languageId = ''json'', version = 1, getText = ''{''\<rparr>, Engine (ParseJSONDocument \<lparr>uri = MODEL_URI, languageId = ''json'', version = 1, getText = ''{''\<rparr>), Engine (DoValidation \<lparr>uri = MODEL_URI, languageId = ''json'', version = 1, getText = ''{''\<rparr>), SetTimeout 2 0]\<rparr> :: (nat, nat) Bridge) =
      (\<lparr>vscodeDocument = \<lparr>vs_uri = ''inmemory://model.json'', vs_languageId = ''json'', vs_version = 2, vs_getText = ''{ ''\<rparr>,
         pendingValidationRequests = [], timers = [],
         nextHandle = 3, now = 0, diagnosticCollection = [], inflight = [Resolved [], Resolved []],
         trace = [SetTimeout 1 0, ValidationPass \<lparr>uri = MODEL_URI, languageId = ''json'', version = 1, getText = ''{''\<rparr>, Engine (ParseJSONDocument \<lparr>uri = MODEL_URI, languageId = ''json'', version = 1, getText = ''{''\<rparr>), Engine (DoValidation \<lparr>uri = MODEL_URI, languageId = ''json'', version = 1, getText = ''{''\<rparr>), SetTimeout 2 0, ValidationPass \<lparr>uri = MODEL_URI, languageId = ''json'', version = 2, getText = ''{ ''\<rparr>, Engine (ParseJSONDocument \<lparr>uri = MODEL_URI, languageId = ''json'', version = 2, getText = ''{ ''\<rparr>), Engine (DoValidation \<lparr>uri = MODEL_URI, languageId = ''json'', version = 2, getText = ''{ ''\<rparr>)]\<rparr> :: (nat, nat) Bridge)"
    by (simp add: createEditor_def step_def validate_def cleanPendingValidation_def setTimeout_def
        clearTimeout_def createDocument_def timerCallback_def doValidate_def
        cleanDiagnostics_def Let_def)
  have a4: "step ?sv (ContentChanged ''{}'')
      (\<lparr>vscodeDocument = \<lparr>vs_uri = ''inmemory://model.json'', vs_languageId = ''json'', vs_version = 2, vs_getText = ''{ ''\<rparr>,
         pendingValidationRequests = [], timers = [],
         nextHandle = 3, now = 0, diagnosticCollection = [], inflight = [Resolved [], Resolved []],
         trace = [SetTimeout 1 0, ValidationPass \<lparr>uri = MODEL_URI, languageId = ''json'', version = 1, getText = ''{''\<rparr>, Engine (ParseJSONDocument \<lparr>uri = MODEL_URI, languageId = ''json'', version = 1, getText = ''{''\<rparr>), Engine (DoValidation \<lparr>uri = MODEL_URI, languageId = ''json'', version = 1, getText = ''{''\<rparr>), SetTimeout 2 0, ValidationPass \<lparr>uri = MODEL_URI, languageId = ''json'', version = 2, getText = ''{ ''\<rparr>, Engine (ParseJSONDocument \<lparr>uri = MODEL_URI, languageId = ''json'', version = 2, getText = ''{ ''\<rparr>), Engine (DoValidation \<lparr>uri = MODEL_URI, languageId = ''json'', version = 2, getText = ''{ ''\<rparr>)]\<rparr> :: (nat, nat) Bridge) =
      (\<lparr>vscodeDocument = \<lparr>vs_uri = ''inmemory://model.json'', vs_languageId = ''json'', vs_version = 3, vs_getText = ''{}''\<rparr>,
         pendingValidationRequests = [(MODEL_URI, 3)], timers = [\<lparr>handle = 3, due = 0, callback = \<lparr>uri = MODEL_URI, languageId = ''json'', version = 3, getText = ''{}''\<rparr>\<rparr>],
         nextHandle = 4, now = 0, diagnosticCollection = [], inflight = [Resolved [], Resolved []],
         trace = [SetTimeout 1 0, ValidationPass \<lparr>uri = MODEL_URI, languageId = ''json'', version = 1, getText = ''{''\<rparr>, Engine (ParseJSONDocument \<lparr>uri = MODEL_URI, languageId = ''json'', version = 1, getText = ''{''\<rparr>), Engine (DoValidation \<lparr>uri = MODEL_URI, languageId = ''json'', version = 1, getText = ''{''\<rparr>), SetTimeout 2 0, ValidationPass \<lparr>uri = MODEL_URI, languageId = ''json'', version = 2, getText = ''{ ''\<rparr>, Engine (ParseJSONDocument \<lparr>uri = MODEL_URI, languageId = ''json'', version = 2, getText = ''{ ''\<rparr>), Engine (DoValidation \<lparr>uri = MODEL_URI, languageId = ''json'', version = 2, getText = ''{ ''\<rparr>), SetTimeout 3 0]\<rparr> :: (nat, nat) Bridge)"
    by (simp add: createEditor_def step_def validate_def cleanPendingValidation_def setTimeout_def
        clearTimeout_def createDocument_def timerCallback_def doValidate_def
        cleanDiagnostics_def Let_def)
  have a5: "step ?sv (TimerFired 3)
      (\<lparr>vscodeDocument = \<lparr>vs_uri = ''inmemory://model.json'', vs_languageId = ''json'', vs_version = 3, vs_getText = ''{}''\<rparr>,
         pendingValidationRequests = [(MODEL_URI, 3)], timers = [\<lparr>handle = 3, due = 0, callback = \<lparr>uri = MODEL_URI, languageId = ''json'', version = 3, getText = ''{}''\<rparr>\<rparr>],
         nextHandle = 4, now = 0, diagnosticCollection = [], inflight = [Resolved [], Resolved []],
         trace = [SetTimeout 1 0, ValidationPass \<lparr>uri = MODEL_URI, languageId = ''json'', version = 1, getText = ''{''\<rparr>, Engine (ParseJSONDocument \<lparr>uri = MODEL_URI, languageId = ''json'', version = 1, getText = ''{''\<rparr>), Engine (DoValidation \<lparr>uri = MODEL_URI, languageId = ''json'', version = 1, getText = ''{''\<rparr>), SetTimeout 2 0, ValidationPass \<lparr>uri = MODEL_URI, languageId = ''json'', version = 2, getText = ''{ ''\<rparr>, Engine (ParseJSONDocument \<lparr>uri = MODEL_URI, languageId = ''json'', version = 2, getText = ''{ ''\<rparr>), Engine (DoValidation \<lparr>uri = MODEL_URI, languageId = ''json'', version = 2, getText = ''{ ''\<rparr>), SetTimeout 3 0]\<rparr> :: (nat, nat) Bridge) =
      (\<lparr>vscodeDocument = \<lparr>vs_uri = ''inmemory://model.json'', vs_languageId = ''json'', vs_version = 3, vs_getText = ''{}''\<rparr>,
         pendingValidationRequests = [], timers = [],
         nextHandle = 4, now = 0, diagnosticCollection = [], inflight = [Resolved [], Resolved [], Resolved []],
         trace = [SetTimeout 1 0, ValidationPass \<lparr>uri = MODEL_URI, languageId = ''json'', version = 1, getText = ''{''\<rparr>, Engine (ParseJSONDocument \<lparr>uri = MODEL_URI, languageId = ''json'', version = 1, getText = ''{''\<rparr>), Engine (DoValidation \<lparr>uri = MODEL_URI, languageId = ''json'', version = 1, getText = ''{''\<rparr>), SetTimeout 2 0, ValidationPass \<lparr>uri = MODEL_URI, languageId = ''json'', version = 2, getText = ''{ ''\<rparr>, Engine (ParseJSONDocument \<lparr>uri = MODEL_URI, languageId = ''json'', version = 2, getText = ''{ ''\<rparr>), Engine (DoValidation \<lparr>uri = MODEL_URI, languageId = ''json'', version = 2, getText = ''{ ''\<rparr>), SetTimeout 3 0, ValidationPass \<lparr>uri = MODEL_URI, languageId = ''json'', version = 3, getText = ''{}''\<rparr>, Engine (ParseJSONDocument \<lparr>uri = MODEL_URI, languageId = ''json'', version = 3, getText = ''{}''\<rparr>), Engine (DoValidation \<lparr>uri = MODEL_URI, languageId = ''json'', version = 3, getText = ''{}''\<rparr>)]\<rparr> :: (nat, nat) Bridge)"
    by (simp add: createEditor_def step_def validate_def cleanPendingValidation_def setTimeout_def
        clearTimeout_def createDocument_def timerCallback_def doValidate_def
        cleanDiagnostics_def Let_def)
  have b2: "step ?sv (ContentChanged ''{ '')
      (\<lparr>vscodeDocument = \<lparr>vs_uri = ''inmemory://model.json'', vs_languageId = ''json'', vs_version = 1, vs_getText = ''{''\<rparr>,
         pendingValidationRequests = [], timers = [],
         nextHandle = 2, now = 0, diagnosticCollection = [], inflight = [Resolved []],
         trace = [SetTimeout 1 0, ValidationPass \<lparr>uri = MODEL_URI, languageId = ''json'', version = 1, getText = ''{''\<rparr>, Engine (ParseJSONDocument \<lparr>uri = MODEL_URI, languageId = ''json'', version = 1, getText = ''{''\<rparr>), Engine (DoValidation \<lparr>uri = MODEL_URI, languageId = ''json'', version = 1, getText = ''{''\<rparr>)]\<rparr> :: (nat, nat) Bridge) =
      (\<lparr>vscodeDocument = \<lparr>vs_uri = ''inmemory://model.json'', vs_languageId = ''json'', vs_version = 2, vs_getText = ''{ ''\<rparr>,
         pendingValidationRequests = [(MODEL_URI, 2)], timers = [\<lparr>handle = 2, due = 0, callback = \<lparr>uri = MODEL_URI, languageId = ''json'', version = 2, getText = ''{ ''\<rparr>\<rparr>],
         nextHandle = 3, now = 0, diagnosticCollection = [], inflight = [Resolved []],
         trace = [SetTimeout 1 0, ValidationPass \<lparr>uri = MODEL_URI, languageId = ''json'', version = 1, getText = ''{''\<rparr>, Engine (ParseJSONDocument \<lparr>uri = MODEL_URI, languageId = ''json'', version = 1, getText = ''{''\<rparr>), Engine (DoValidation \<lparr>uri = MODEL_URI, languageId = ''json'', version = 1, getText = ''{''\<rparr>), SetTimeout 2 0]\<rparr> :: (nat, nat) Bridge)"
    by (simp add: createEditor_def step_def validate_def cleanPendingValidation_def setTimeout_def
        clearTimeout_def createDocument_def timerCallback_def doValidate_def
        cleanDiagnostics_def Let_def)
  have b3: "step ?sv (Elapse 10)
      (\<lparr>vscodeDocument = \<lparr>vs_uri = ''inmemory://model.json'', vs_languageId = ''json'', vs_version = 2, vs_getText = ''{ ''\<rparr>,
         pendingValidationRequests = [(MODEL_URI, 2)], timers = [\<lparr>handle = 2, due = 0, callback = \<lparr>uri = MODEL_URI, languageId = ''json'', version = 2, getText = ''{ ''\<rparr>\<rparr>],
         nextHandle = 3, now = 0, diagnosticCollection = [], inflight = [Resolved []],
         trace = [SetTimeout 1 0, ValidationPass \<lparr>uri = MODEL_URI, languageId = ''json'', version = 1, getText = ''{''\<rparr>, Engine (ParseJSONDocument \<lparr>uri = MODEL_URI, languageId = ''json'', version = 1, getText = ''{''\<rparr>), Engine (DoValidation \<lparr>uri = MODEL_URI, languageId = ''json'', version = 1, getText = ''{''\<rparr>), SetTimeout 2 0]\<rparr> :: (nat, nat) Bridge) =
      (\<lparr>vscodeDocument = \<lparr>vs_uri = ''inmemory://model.json'', vs_languageId = ''json'', vs_version = 2, vs_getText = ''{ ''\<rparr>,
         pendingValidationRequests = [(MODEL_URI, 2)], timers = [\<lparr>handle = 2, due = 0, callback = \<lparr>uri = MODEL_URI, languageId = ''json'', version = 2, getText = ''{ ''\<rparr>\<rparr>],
         nextHandle = 3, now = 10, diagnosticCollection = [], inflight = [Resolved []],
         trace = [SetTimeout 1 0, ValidationPass \<lparr>uri = MODEL_URI, languageId = ''json'', version = 1, getText = ''{''\<rparr>, Engine (ParseJSONDocument \<lparr>uri = MODEL_URI, languageId = ''json'', version = 1, getText = ''{''\<rparr>), Engine (DoValidation \<lparr>uri = MODEL_URI, languageId = ''json'', version = 1, getText = ''{''\<rparr>), SetTimeout 2 0]\<rparr> :: (nat, nat) Bridge)"
    by (simp add: createEditor_def step_def validate_def cleanPendingValidation_def setTimeout_def
        clearTimeout_def createDocument_def timerCallback_def doValidate_def
        cleanDiagnostics_def Let_def)
  have b4: "step ?sv (TimerFired 2)
      (\<lparr>vscodeDocument = \<lparr>vs_uri = ''inmemory://model.json'', vs_languageId = ''json'', vs_version = 2, vs_getText = ''{ ''\<rparr>,
         pendingValidationRequests = [(MODEL_URI, 2)], timers = [\<lparr>handle = 2, due = 0, callback = \<lparr>uri = MODEL_URI, languageId = ''json'', version = 2, getText = ''{ ''\<rparr>\<rparr>],
         nextHandle = 3, now = 10, diagnosticCollection = [], inflight = [Resolved []],
         trace = [SetTimeout 1 0, ValidationPass \<lparr>uri = MODEL_URI, languageId = ''json'', version = 1, getText = ''{''\<rparr>, Engine (ParseJSONDocument \<lparr>uri = MODEL_URI, languageId = ''json'', version = 1, getText = ''{''\<rparr>), Engine (DoValidation \<lparr>uri = MODEL_URI, languageId = ''json'', version = 1, getText = ''{''\<rparr>), SetTimeout 2 0]\<rparr> :: (nat, nat) Bridge) =
      (\<lparr>vscodeDocument = \<lparr>vs_uri = ''inmemory://model.json'', vs_languageId = ''json'', vs_version = 2, vs_getText = ''{ ''\<rparr>,
         pendingValidationRequests = [], timers = [],
         nextHandle = 3, now = 10, diagnosticCollection = [], inflight = [Resolved [], Resolved []],
         trace = [SetTimeout 1 0, ValidationPass \<lparr>uri = MODEL_URI, languageId = ''json'', version = 1, getText = ''{''\<rparr>, Engine (ParseJSONDocument \<lparr>uri = MODEL_URI, languageId = ''json'', version = 1, getText = ''{''\<rparr>), Engine (DoValidation \<lparr>uri = MODEL_URI, languageId = ''json'', version = 1, getText = ''{''\<rparr>), SetTimeout 2 0, ValidationPass \<lparr>uri = MODEL_URI, languageId = ''json'', version = 2, getText = ''{ ''\<rparr>, Engine (ParseJSONDocument \<lparr>uri = MODEL_URI, languageId = ''json'', version = 2, getText = ''{ ''\<rparr>), Engine (DoValidation \<lparr>uri = MODEL_URI, languageId = ''json'', version = 2, getText = ''{ ''\<rparr>)]\<rparr> :: (nat, nat) Bridge)"
    by (simp add: createEditor_def step_def validate_def cleanPendingValidation_def setTimeout_def
        clearTimeout_def createDocument_def timerCallback_def doValidate_def
        cleanDiagnostics_def Let_def)
  have b5: "step ?sv (ContentChanged ''{}'')
      (\<lparr>vscodeDocument = \<lparr>vs_uri = ''inmemory://model.json'', vs_languageId = ''json'', vs_version = 2, vs_getText = ''{ ''\<rparr>,
         pendingValidationRequests = [], timers = [],
         nextHandle = 3, now = 10, diagnosticCollection = [], inflight = [Resolved [], Resolved []],
         trace = [SetTimeout 1 0, ValidationPass \<lparr>uri = MODEL_URI, languageId = ''json'', version = 1, getText = ''{''\<rparr>, Engine (ParseJSONDocument \<lparr>uri = MODEL_URI, languageId = ''json'', version = 1, getText = ''{''\<rparr>), Engine (DoValidation \<lparr>uri = MODEL_URI, languageId = ''json'', version = 1, getText = ''{''\<rparr>), SetTimeout 2 0, ValidationPass \<lparr>uri = MODEL_URI, languageId = ''json'', version = 2, getText = ''{ ''\<rparr>, Engine (ParseJSONDocument \<lparr>uri = MODEL_URI, languageId = ''json'', version = 2, getText = ''{ ''\<rparr>), Engine (DoValidation \<lparr>uri = MODEL_URI, languageId = ''json'', version = 2, getText = ''{ ''\<rparr>)]\<rparr> :: (nat, nat) Bridge) =
      (\<lparr>vscodeDocument = \<lparr>vs_uri = ''inmemory://model.json'', vs_languageId = ''json'', vs_version = 3, vs_getText = ''{}''\<rparr>,
         pendingValidationRequests = [(MODEL_URI, 3)], timers = [\<lparr>handle = 3, due = 10, callback = \<lparr>uri = MODEL_URI, languageId = ''json'', version = 3, getText = ''{}''\<rparr>\<rparr>],
         nextHandle = 4, now = 10, diagnosticCollection = [], inflight = [Resolved [], Resolved []],
         trace = [SetTimeout 1 0, ValidationPass \<lparr>uri = MODEL_URI, languageId = ''json'', version = 1, getText = ''{''\<rparr>, Engine (ParseJSONDocument \<lparr>uri = MODEL_URI, languageId = ''json'', version = 1, getText = ''{''\<rparr>), Engine (DoValidation \<lparr>uri = MODEL_URI, languageId = ''json'', version = 1, getText = ''{''\<rparr>), SetTimeout 2 0, ValidationPass \<lparr>uri = MODEL_URI, languageId = ''json'', version = 2, getText = ''{ ''\<rparr>, Engine (ParseJSONDocument \<lparr>uri = MODEL_URI, languageId = ''json'', version = 2, getText = ''{ ''\<rparr>), Engine (DoValidation \<lparr>uri = MODEL_URI, languageId = ''json'', version = 2, getText = ''{ ''\<rparr>), SetTimeout 3 0]\<rparr> :: (nat, nat) Bridge)"
    by (simp add: createEditor_def step_def validate_def cleanPendingValidation_def setTimeout_def
        clearTimeout_def createDocument_def timerCallback_def doValidate_def
        cleanDiagnostics_def Let_def)
  have b6: "step ?sv (Elapse 300)
      (\<lparr>vscodeDocument = \<lparr>vs_uri = ''inmemory://model.json'', vs_languageId = ''json'', vs_version = 3, vs_getText = ''{}''\<rparr>,
         pendingValidationRequests = [(MODEL_URI, 3)], timers = [\<lparr>handle = 3, due = 10, callback = \<lparr>uri = MODEL_URI, languageId = ''json'', version = 3, getText = ''{}''\<rparr>\<rparr>],
         nextHandle = 4, now = 10, diagnosticCollection = [], inflight = [Resolved [], Resolved []],
         trace = [SetTimeout 1 0, ValidationPass \<lparr>uri = MODEL_URI, languageId = ''json'', version = 1, getText = ''{''\<rparr>, Engine (ParseJSONDocument \<lparr>uri = MODEL_URI, languageId = ''json'', version = 1, getText = ''{''\<rparr>), Engine (DoValidation \<lparr>uri = MODEL_URI, languageId = ''json'', version = 1, getText = ''{''\<rparr>), SetTimeout 2 0, ValidationPass \<lparr>uri = MODEL_URI, languageId = ''json'', version = 2, getText = ''{ ''\<rparr>, Engine (ParseJSONDocument \<lparr>uri = MODEL_URI, languageId = ''json'', version = 2, getText = ''{ ''\<rparr>), Engine (DoValidation \<lparr>uri = MODEL_URI, languageId = ''json'', version = 2, getText = ''{ ''\<rparr>), SetTimeout 3 0]\<rparr> :: (nat, nat) Bridge) =
      (\<lparr>vscodeDocument = \<lparr>vs_uri = ''inmemory://model.json'', vs_languageId = ''json'', vs_version = 3, vs_getText = ''{}''\<rparr>,
         pendingValidationRequests = [(MODEL_URI, 3)], timers = [\<lparr>handle = 3, due = 10, callback = \<lparr>uri = MODEL_URI, languageId = ''json'', version = 3, getText = ''{}''\<rparr>\<rparr>],
         nextHandle = 4, now = 310, diagnosticCollection = [], inflight = [Resolved [], Resolved []],
         trace = [SetTimeout 1 0, ValidationPass \<lparr>uri = MODEL_URI, languageId = ''json'', version = 1, getText = ''{''\<rparr>, Engine (ParseJSONDocument \<lparr>uri = MODEL_URI, languageId = ''json'', version = 1, getText = ''{''\<rparr>), Engine (DoValidation \<lparr>uri = MODEL_URI, languageId = ''json'', version = 1, getText = ''{''\<rparr>), SetTimeout 2 0, ValidationPass \<lparr>uri = MODEL_URI, languageId = ''json'', version = 2, getText = ''{ ''\<rparr>, Engine (ParseJSONDocument \<lparr>uri = MODEL_URI, languageId = ''json'', version = 2, getText = ''{ ''\<rparr>), Engine (DoValidation \<lparr>uri = MODEL_URI, languageId = ''json'', version = 2, getText = ''{ ''\<rparr>), SetTimeout 3 0]\<rparr> :: (nat, nat) Bridge)"
    by (simp add: createEditor_def step_def validate_def cleanPendingValidation_def setTimeout_def
        clearTimeout_def createDocument_def timerCallback_def doValidate_def
        cleanDiagnostics_def Let_def)
  have b7: "step ?sv (TimerFired 3)
      (\<lparr>vscodeDocument = \<lparr>vs_uri = ''inmemory://model.json'', vs_languageId = ''json'', vs_version = 3, vs_getText = ''{}''\<rparr>,
         pendingValidationRequests = [(MODEL_URI, 3)], timers = [\<lparr>handle = 3, due = 10, callback = \<lparr>uri = MODEL_URI, languageId = ''json'', version = 3, getText = ''{}''\<rparr>\<rparr>],
         nextHandle = 4, now = 310, diagnosticCollection = [], inflight = [Resolved [], Resolved []],
         trace = [SetTimeout 1 0, ValidationPass \<lparr>uri = MODEL_URI, languageId = ''json'', version = 1, getText = ''{''\<rparr>, Engine (ParseJSONDocument \<lparr>uri = MODEL_URI, languageId = ''json'', version = 1, getText = ''{''\<rparr>), Engine (DoValidation \<lparr>uri = MODEL_URI, languageId = ''json'', version = 1, getText = ''{''\<rparr>), SetTimeout 2 0, ValidationPass \<lparr>uri = MODEL_URI, languageId = ''json'', version = 2, getText = ''{ ''\<rparr>, Engine (ParseJSONDocument \<lparr>uri = MODEL_URI, languageId = ''json'', version = 2, getText = ''{ ''\<rparr>), Engine (DoValidation \<lparr>uri = MODEL_URI, languageId = ''json'', version = 2, getText = ''{ ''\<rparr>), SetTimeout 3 0]\<rparr> :: (nat, nat) Bridge) =
      (\<lparr>vscodeDocument = \<lparr>vs_uri = ''inmemory://model.json'', vs_languageId = ''json'', vs_version = 3, vs_getText = ''{}''\<rparr>,
         pendingValidationRequests = [], timers = [],
         nextHandle = 4, now = 310, diagnosticCollection = [], inflight = [Resolved [], Resolved [], Resolved []],
         trace = [SetTimeout 1 0, ValidationPass \<lparr>uri = MODEL_URI, languageId = ''json'', version = 1, getText = ''{''\<rparr>, Engine (ParseJSONDocument \<lparr>uri = MODEL_URI, languageId = ''json'', version = 1, getText = ''{''\<rparr>), Engine (DoValidation \<lparr>uri = MODEL_URI, languageId = ''json'', version = 1, getText = ''{''\<rparr>), SetTimeout 2 0, ValidationPass \<lparr>uri = MODEL_URI, languageId = ''json'', version = 2, getText = ''{ ''\<rparr>, Engine (ParseJSONDocument \<lparr>uri = MODEL_URI, languageId = ''json'', version = 2, getText = ''{ ''\<rparr>), Engine (DoValidation \<lparr>uri = MODEL_URI, languageId = ''json'', version = 2, getText = ''{ ''\<rparr>), SetTimeout 3 0, ValidationPass \<lparr>uri = MODEL_URI, languageId = ''json'', version = 3, getText = ''{}''\<rparr>, Engine (ParseJSONDocument \<lparr>uri = MODEL_URI, languageId = ''json'', version = 3, getText = ''{}''\<rparr>), Engine (DoValidation \<lparr>uri = MODEL_URI, languageId = ''json'', version = 3, getText = ''{}''\<rparr>)]\<rparr> :: (nat, nat) Bridge)"
    by (simp add: createEditor_def step_def validate_def cleanPendingValidation_def setTimeout_def
        clearTimeout_def createDocument_def timerCallback_def doValidate_def
        cleanDiagnostics_def Let_def)
  have idle: "run ?sv [TimerFired 1]
      (createEditor \<lparr>vs_uri = ''inmemory://model.json'', vs_languageId = ''json'', vs_version = 1, vs_getText = ''{''\<rparr>) =
      (\<lparr>vscodeDocument = \<lparr>vs_uri = ''inmemory://model.json'', vs_languageId = ''json'', vs_version = 1, vs_getText = ''{''\<rparr>,
         pendingValidationRequests = [], timers = [],
         nextHandle = 2, now = 0, diagnosticCollection = [], inflight = [Resolved []],
         trace = [SetTimeout 1 0, ValidationPass \<lparr>uri = MODEL_URI, languageId = ''json'', version = 1, getText = ''{''\<rparr>, Engine (ParseJSONDocument \<lparr>uri = MODEL_URI, languageId = ''json'', version = 1, getText = ''{''\<rparr>), Engine (DoValidation \<lparr>uri = MODEL_URI, languageId = ''json'', version = 1, getText = ''{''\<rparr>)]\<rparr> :: (nat, nat) Bridge)"
    by (simp only: run.simps a0 a1)
  have ra: "run ?sv ([ContentChanged ''{ '', TimerFired 2, ContentChanged ''{}''] @ [TimerFired 3])
      (\<lparr>vscodeDocument = \<lparr>vs_uri = ''inmemory://model.json'', vs_languageId = ''json'', vs_version = 1, vs_getText = ''{''\<rparr>,
         pendingValidationRequests = [], timers = [],
         nextHandle = 2, now = 0, diagnosticCollection = [], inflight = [Resolved []],
         trace = [SetTimeout 1 0, ValidationPass \<lparr>uri = MODEL_URI, languageId = ''json'', version = 1, getText = ''{''\<rparr>, Engine (ParseJSONDocument \<lparr>uri = MODEL_URI, languageId = ''json'', version = 1, getText = ''{''\<rparr>), Engine (DoValidation \<lparr>uri = MODEL_URI, languageId = ''json'', version = 1, getText = ''{''\<rparr>)]\<rparr> :: (nat, nat) Bridge) =
      (\<lparr>vscodeDocument = \<lparr>vs_uri = ''inmemory://model.json'', vs_languageId = ''json'', vs_version = 3, vs_getText = ''{}''\<rparr>,
         pendingValidationRequests = [], timers = [],
         nextHandle = 4, now = 0, diagnosticCollection = [], inflight = [Resolved [], Resolved [], Resolved []],
         trace = [SetTimeout 1 0, ValidationPass \<lparr>uri = MODEL_URI, languageId = ''json'', version = 1, getText = ''{''\<rparr>, Engine (ParseJSONDocument \<lparr>uri = MODEL_URI, languageId = ''json'', version = 1, getText = ''{''\<rparr>), Engine (DoValidation \<lparr>uri = MODEL_URI, languageId = ''json'', version = 1, getText = ''{''\<rparr>), SetTimeout 2 0, ValidationPass \<lparr>uri = MODEL_URI, languageId = ''json'', version = 2, getText = ''{ ''\<rparr>, Engine (ParseJSONDocument \<lparr>uri = MODEL_URI, languageId = ''json'', version = 2, getText = ''{ ''\<rparr>), Engine (DoValidation \<lparr>uri = MODEL_URI, languageId = ''json'', version = 2, getText = ''{ ''\<rparr>), SetTimeout 3 0, ValidationPass \<lparr>uri = MODEL_URI, languageId = ''json'', version = 3, getText = ''{}''\<rparr>, Engine (ParseJSONDocument \<lparr>uri = MODEL_URI, languageId = ''json'', version = 3, getText = ''{}''\<rparr>), Engine (DoValidation \<lparr>uri = MODEL_URI, languageId = ''json'', version = 3, getText = ''{}''\<rparr>)]\<rparr> :: (nat, nat) Bridge)"
    by (simp only: run.simps append.simps a2 a3 a4 a5)
  have rb: "run ?sv ([ContentChanged ''{ '', Elapse 10, TimerFired 2, ContentChanged ''{}''] @ [Elapse 300, TimerFired 3])
      (\<lparr>vscodeDocument = \<lparr>vs_uri = ''inmemory://model.json'', vs_languageId = ''json'', vs_version = 1, vs_getText = ''{''\<rparr>,
         pendingValidationRequests = [], timers = [],
         nextHandle = 2, now = 0, diagnosticCollection = [], inflight = [Resolved []],
         trace = [SetTimeout 1 0, ValidationPass \<lparr>uri = MODEL_URI, languageId = ''json'', version = 1, getText = ''{''\<rparr>, Engine (ParseJSONDocument \<lparr>uri = MODEL_URI, languageId = ''json'', version = 1, getText = ''{''\<rparr>), Engine (DoValidation \<lparr>uri = MODEL_URI, languageId = ''json'', version = 1, getText = ''{''\<rparr>)]\<rparr> :: (nat, nat) Bridge) =
      (\<lparr>vscodeDocument = \<lparr>vs_uri = ''inmemory://model.json'', vs_languageId = ''json'', vs_version = 3, vs_getText = ''{}''\<rparr>,
         pendingValidationRequests = [], timers = [],
         nextHandle = 4, now = 310, diagnosticCollection = [], inflight = [Resolved [], Resolved [], Resolved []],
         trace = [SetTimeout 1 0, ValidationPass \<lparr>uri = MODEL_URI, languageId = ''json'', version = 1, getText = ''{''\<rparr>, Engine (ParseJSONDocument \<lparr>uri = MODEL_URI, languageId = ''json'', version = 1, getText = ''{''\<rparr>), Engine (DoValidation \<lparr>uri = MODEL_URI, languageId = ''json'', version = 1, getText = ''{''\<rparr>), SetTimeout 2 0, ValidationPass \<lparr>uri = MODEL_URI, languageId = ''json'', version = 2, getText = ''{ ''\<rparr>, Engine (ParseJSONDocument \<lparr>uri = MODEL_URI, languageId = ''json'', version = 2, getText = ''{ ''\<rparr>), Engine (DoValidation \<lparr>uri = MODEL_URI, languageId = ''json'', version = 2, getText = ''{ ''\<rparr>), SetTimeout 3 0, ValidationPass \<lparr>uri = MODEL_URI, languageId = ''json'', version = 3, getText = ''{}''\<rparr>, Engine (ParseJSONDocument \<lparr>uri = MODEL_URI, languageId = ''json'', version = 3, getText = ''{}''\<rparr>), Engine (DoValidation \<lparr>uri = MODEL_URI, languageId = ''json'', version = 3, getText = ''{}''\<rparr>)]\<rparr> :: (nat, nat) Bridge)"
    by (simp only: run.simps append.simps b2 b3 b4 b5 b6 b7)
  show ?thesis
    unfolding Let_def idle ra rb by simp
qed

text \<open>
  C2, pending-handle invariant. In every reachable state the map holds at most one
  handle per URI, and its entries are exactly the active timers, of which there is at
  most one. When a handle \<open>h\<close> is pending, a further change first cancels \<open>h\<close> and then
  schedules a fresh handle, which replaces \<open>h\<close> in the map; cancelling
  (\<^verbatim>\<open>cleanPendingValidation\<close>) and firing each leave the map and the timers empty. A timer
  event for a handle that is not pending changes nothing, and neither the passing of
  time nor an answer of the engine touches the map.
\<close>

theorem pending_handle_invariant:
  fixes services :: "('j, 'sd, 'ed) Services" and s :: "('sd, 'ed) Bridge"
    and evs :: "Event list" and vd0 :: VscodeTextDocument
  defines "s \<equiv> run services evs (createEditor vd0)"
  shows "distinct (map fst (pendingValidationRequests s)) \<and>
         length (timers s) \<le> 1 \<and>
         pendingValidationRequests s = map (\<lambda>t. (uri (callback t), handle t)) (timers s) \<and>
         (map_of (pendingValidationRequests s) MODEL_URI = Some h \<longrightarrow>
            h < nextHandle s \<and>
            trace (step services (ContentChanged newText) s) =
              trace s @ [ClearTimeout h, SetTimeout (nextHandle s) 0] \<and>
            list_all (\<lambda>t. handle t \<noteq> h) (timers (step services (ContentChanged newText) s)) \<and>
            pendingValidationRequests (step services (ContentChanged newText) s) =
              [(MODEL_URI, nextHandle s)] \<and>
            timers (cleanPendingValidation (createDocument vd) s) = [] \<and>
            pendingValidationRequests (cleanPendingValidation (createDocument vd) s) = [] \<and>
            timers (step services (TimerFired h) s) = [] \<and>
            pendingValidationRequests (step services (TimerFired h) s) = []) \<and>
         (map_of (pendingValidationRequests s) MODEL_URI \<noteq> Some h' \<longrightarrow>
            step services (TimerFired h') s = s) \<and>
         pendingValidationRequests (step services (Elapse dt) s) = pendingValidationRequests s \<and>
         pendingValidationRequests (step services (ValidationSettled i) s) =
           pendingValidationRequests s"
proof -
  have inv: "pending_invariant s"
    unfolding s_def by (rule inv_run) (rule inv_createEditor)
  define s2 where "s2 = s\<lparr>vscodeDocument :=
                       (vscodeDocument s)\<lparr>vs_version := vs_version (vscodeDocument s) + 1,
                                          vs_getText := newText\<rparr>\<rparr>"
  have inv2: "pending_invariant s2" using inv by (simp add: s2_def pending_invariant_def)
  have st: "step services (ContentChanged newText) s = validate s2"
    by (simp add: step_def s2_def)
  have frame: "pendingValidationRequests (step services (Elapse dt) s) = pendingValidationRequests s \<and>
         pendingValidationRequests (step services (ValidationSettled i) s) =
           pendingValidationRequests s"
    by (simp add: step_def validationSettled_frame)
  consider "timers s = []" | t where "timers s = [t]"
    using inv by (cases "timers s") (auto simp: pending_invariant_def)
  then show ?thesis
  proof cases
    case 1
    then have "pendingValidationRequests s = []"
      using inv by (simp add: pending_invariant_def)
    then show ?thesis using 1 frame by (simp add: step_def)
  next
    case 2
    then have pd: "pendingValidationRequests s = [(MODEL_URI, handle t)]" and lt: "handle t < nextHandle s"
      using inv by (simp_all add: pending_invariant_def)
    have tm2: "timers s2 = [t]" using 2 by (simp add: s2_def)
    have other: "step services (TimerFired h') s = s" if "h' \<noteq> handle t"
      using that 2 by (auto simp: step_def)
    have new: "list_all (\<lambda>u. handle u \<noteq> handle t) (timers (validate s2))"
      using validate_timers(1)[OF inv2] lt by (simp add: s2_def)
    have c1: "distinct (map fst (pendingValidationRequests s)) \<and> length (timers s) \<le> 1 \<and>
         pendingValidationRequests s = map (\<lambda>t. (uri (callback t), handle t)) (timers s)"
      using 2 pd inv by (simp add: pending_invariant_def)
    have c2: "h < nextHandle s \<and>
            trace (step services (ContentChanged newText) s) =
              trace s @ [ClearTimeout h, SetTimeout (nextHandle s) 0] \<and>
            list_all (\<lambda>t. handle t \<noteq> h) (timers (step services (ContentChanged newText) s)) \<and>
            pendingValidationRequests (step services (ContentChanged newText) s) =
              [(MODEL_URI, nextHandle s)] \<and>
            timers (cleanPendingValidation (createDocument vd) s) = [] \<and>
            pendingValidationRequests (cleanPendingValidation (createDocument vd) s) = [] \<and>
            timers (step services (TimerFired h) s) = [] \<and>
            pendingValidationRequests (step services (TimerFired h) s) = []"
      if "map_of (pendingValidationRequests s) MODEL_URI = Some h"
    proof -
      have h: "h = handle t" using that pd by simp
      show ?thesis
        unfolding h st
        using lt new reschedule(1)[OF inv2 tm2] validate_timers(2)[OF inv2]
          reschedule(2,3)[OF inv 2, of vd] reschedule(4,5)[OF inv 2, of services]
        by (simp add: s2_def)
    qed
    have c3: "step services (TimerFired h') s = s"
      if "map_of (pendingValidationRequests s) MODEL_URI \<noteq> Some h'"
      using that pd other by auto
    show ?thesis using c1 c2 c3 frame by blast
  qed
qed

theorem pending_handle_invariant_witness:
  "(let sv = (\<lparr>parseJSONDocument = \<lambda>d. (), doValidation = \<lambda>d j. Resolved ([] :: nat list),
               asDiagnostics = \<lambda>ds. Resolved ds\<rparr> :: (unit, nat, nat) Services);
        s = run sv [ContentChanged ''{}'']
              (createEditor \<lparr>vs_uri = ''inmemory://model.json'', vs_languageId = ''json'',
                             vs_version = 1, vs_getText = ''{''\<rparr>)
    in map_of (pendingValidationRequests s) MODEL_URI = Some 2 \<and>
       trace (step sv (ContentChanged ''[]'') s) = trace s @ [ClearTimeout 2, SetTimeout 3 0] \<and>
       pendingValidationRequests (step sv (ContentChanged ''[]'') s) = [(MODEL_URI, 3)] \<and>
       pendingValidationRequests (step sv (TimerFired 2) s) = [] \<and>
       map_of (pendingValidationRequests s) MODEL_URI \<noteq> Some 1 \<and>
       step sv (TimerFired 1) s = s)"
proof -
  let ?sv = "\<lparr>parseJSONDocument = \<lambda>d. (), doValidation = \<lambda>d j. Resolved ([] :: nat list),
               asDiagnostics = \<lambda>ds. Resolved ds\<rparr> :: (unit, nat, nat) Services"
  let ?vd = "\<lparr>vs_uri = ''inmemory://model.json'', vs_languageId = ''json'',
                             vs_version = 1, vs_getText = ''{''\<rparr>"
  let ?s = "run ?sv [ContentChanged ''{}''] (createEditor ?vd) :: (nat, nat) Bridge"
  have pd: "pendingValidationRequests ?s = [(MODEL_URI, 2)]"
    by (simp add: createEditor_def step_def validate_def cleanPendingValidation_def
        setTimeout_def clearTimeout_def createDocument_def Let_def)
  have nh: "nextHandle ?s = 3"
    by (simp add: createEditor_def step_def validate_def cleanPendingValidation_def
        setTimeout_def clearTimeout_def createDocument_def Let_def)
  have pending: "map_of (pendingValidationRequests ?s) MODEL_URI = Some 2"
    and other: "map_of (pendingValidationRequests ?s) MODEL_URI \<noteq> Some 1"
    using pd by simp_all
  show ?thesis
    using pending_handle_invariant[of ?sv "[ContentChanged ''{}'']" ?vd 2 "''[]''" ?vd 1 0 0]
      pending other nh
    by (simp add: Let_def)
qed

text \<open>
  C3, empty-document suppression. A validation pass on a snapshot whose text has length
  zero calls \<^verbatim>\<open>clear()\<close> on the diagnostic collection, which is empty afterwards, and makes
  no call to the engine: no document is parsed and no validation request is left
  waiting. A pass on a snapshot with a non-empty text parses the document and calls the
  engine's \<^verbatim>\<open>doValidation\<close>, whose promise is then waiting.
\<close>

theorem empty_document_suppression:
  "(length (getText document) = 0 \<longrightarrow>
      trace (doValidate services document s) = trace s @ [ValidationPass document, DiagnosticsClear] \<and>
      diagnosticCollection (doValidate services document s) = [] \<and>
      inflight (doValidate services document s) = inflight s) \<and>
   (length (getText document) \<noteq> 0 \<longrightarrow>
      trace (doValidate services document s) =
        trace s @ [ValidationPass document, Engine (ParseJSONDocument document),
                   Engine (DoValidation document)] \<and>
      inflight (doValidate services document s) =
        inflight s @ [doValidation services document (parseJSONDocument services document)])"
  by (simp add: doValidate_def cleanDiagnostics_def diagnostics_clear_def Let_def)

theorem empty_document_suppression_witness:
  "(let sv = (\<lparr>parseJSONDocument = \<lambda>d. (), doValidation = \<lambda>d j. Resolved [Suc 0],
               asDiagnostics = \<lambda>ds. Resolved ds\<rparr> :: (unit, nat, nat) Services);
        s = (\<lparr>vscodeDocument = \<lparr>vs_uri = ''inmemory://model.json'', vs_languageId = ''json'',
                                vs_version = 2, vs_getText = []\<rparr>,
              pendingValidationRequests = [], timers = [], nextHandle = 3, now = 0,
              diagnosticCollection = [(MONACO_URI, [7])], inflight = [], trace = []\<rparr>
             :: (nat, nat) Bridge);
        empty = \<lparr>uri = MODEL_URI, languageId = ''json'', version = 2, getText = []\<rparr>;
        full = \<lparr>uri = MODEL_URI, languageId = ''json'', version = 1, getText = ''{ invalid }''\<rparr>
    in length (getText empty) = 0 \<and>
       trace (doValidate sv empty s) = [ValidationPass empty, DiagnosticsClear] \<and>
       diagnosticCollection (doValidate sv empty s) = [] \<and>
       inflight (doValidate sv empty s) = [] \<and>
       length (getText full) \<noteq> 0 \<and>
       trace (doValidate sv full s) =
         [ValidationPass full, Engine (ParseJSONDocument full), Engine (DoValidation full)] \<and>
       inflight (doValidate sv full s) = [Resolved [Suc 0]])"
  using empty_document_suppression
      [of "\<lparr>uri = MODEL_URI, languageId = ''json'', version = 2, getText = []\<rparr>"
          "\<lparr>parseJSONDocument = \<lambda>d. (), doValidation = \<lambda>d j. Resolved [Suc 0],
               asDiagnostics = \<lambda>ds. Resolved ds\<rparr> :: (unit, nat, nat) Services"
          "\<lparr>vscodeDocument = \<lparr>vs_uri = ''inmemory://model.json'', vs_languageId = ''json'',
                                vs_version = 2, vs_getText = []\<rparr>,
              pendingValidationRequests = [], timers = [], nextHandle = 3, now = 0,
              diagnosticCollection = [(MONACO_URI, [7])], inflight = [], trace = []\<rparr>"]
    empty_document_suppression
      [of "\<lparr>uri = MODEL_URI, languageId = ''json'', version = 1, getText = ''{ invalid }''\<rparr>"
          "\<lparr>parseJSONDocument = \<lambda>d. (), doValidation = \<lambda>d j. Resolved [Suc 0],
               asDiagnostics = \<lambda>ds. Resolved ds\<rparr> :: (unit, nat, nat) Services"
          "\<lparr>vscodeDocument = \<lparr>vs_uri = ''inmemory://model.json'', vs_languageId = ''json'',
                                vs_version = 2, vs_getText = []\<rparr>,
              pendingValidationRequests = [], timers = [], nextHandle = 3, now = 0,
              diagnosticCollection = [(MONACO_URI, [7])], inflight = [], trace = []\<rparr>"]
  by (simp add: Let_def)

text \<open>
  C4, quiescence delay, as amended. Every buffer change schedules the deferred validation
  callback through \<^verbatim>\<open>setTimeout\<close> with no delay argument, that is with a delay of 0
  milliseconds: the timer is due at the time it is set, and its handle is stored in the
  map under \<open>MODEL_URI\<close>.
\<close>

theorem quiescence_delay_zero:
  "scheduled_delays (trace (step services (ContentChanged newText) s)) =
     scheduled_delays (trace s) @ [0] \<and>
   last (timers (step services (ContentChanged newText) s)) =
     \<lparr>handle = nextHandle s, due = now s,
      callback = createDocument ((vscodeDocument s)\<lparr>vs_version := vs_version (vscodeDocument s) + 1,
                                                  vs_getText := newText\<rparr>)\<rparr> \<and>
   map_of (pendingValidationRequests (step services (ContentChanged newText) s)) MODEL_URI =
     Some (nextHandle s)"
  by (simp add: step_def validate_def cleanPendingValidation_def setTimeout_def clearTimeout_def
      Let_def scheduled_delays_append uri_createDocument update_conv' split: option.splits)

text \<open>
  The claim as stated asks for a delay of tens to a few hundred milliseconds. The delays
  scheduled at start-up and by one change are both 0.
\<close>

theorem quiescence_delay_counterexample:
  "\<not> list_all (\<lambda>delay. 10 \<le> delay \<and> delay \<le> 999)
       (scheduled_delays (trace (step
          (\<lparr>parseJSONDocument = \<lambda>d. (), doValidation = \<lambda>d j. Resolved ([] :: nat list),
            asDiagnostics = \<lambda>ds. Resolved ds\<rparr> :: (unit, nat, nat) Services)
          (ContentChanged ''{}'')
          (createEditor \<lparr>vs_uri = ''inmemory://model.json'', vs_languageId = ''json'',
                         vs_version = 1, vs_getText = ''{''\<rparr>))))"
  by (simp add: step_def createEditor_def validate_def cleanPendingValidation_def setTimeout_def
      clearTimeout_def Let_def createDocument_def MODEL_URI_def)

text \<open>
  C5, diagnostic replace-not-merge. After \<^verbatim>\<open>set(uri, D1)\<close> and then \<^verbatim>\<open>set(uri, D2)\<close> the
  diagnostics visible for \<open>uri\<close> are exactly \<open>D2\<close>; in particular none are visible after
  \<^verbatim>\<open>set(uri, [])\<close> following \<^verbatim>\<open>set(uri, [d1, d2])\<close>. The same holds for the bridge: when
  two validation passes publish \<open>D1\<close> and then \<open>D2\<close>, the diagnostics visible for
  \<open>MONACO_URI\<close> are \<open>D2\<close>.
\<close>

theorem diagnostic_replace_not_merge:
  "visible_diagnostics (diagnostics_set u D2 (diagnostics_set u D1 coll)) u = D2 \<and>
   visible_diagnostics (diagnostics_set u [] (diagnostics_set u [d1, d2] coll)) u = [] \<and>
   (asDiagnostics services p1 = Resolved D1 \<and> asDiagnostics services p2 = Resolved D2 \<longrightarrow>
      visible_diagnostics
        (diagnosticCollection
           (validationSettled services (Resolved p2) (validationSettled services (Resolved p1) s)))
        MONACO_URI = D2)"
  by (simp add: visible_diagnostics_def diagnostics_set_def validationSettled_def update_conv')

theorem diagnostic_replace_not_merge_witness:
  "(let sv = (\<lparr>parseJSONDocument = \<lambda>d. (), doValidation = \<lambda>d j. Resolved ([] :: nat list),
               asDiagnostics = \<lambda>ds. Resolved (map Suc ds)\<rparr> :: (unit, nat, nat) Services);
        s = (\<lparr>vscodeDocument = \<lparr>vs_uri = ''inmemory://model.json'', vs_languageId = ''json'',
                                vs_version = 2, vs_getText = ''{}''\<rparr>,
              pendingValidationRequests = [], timers = [], nextHandle = 3, now = 0,
              diagnosticCollection = [], inflight = [], trace = []\<rparr> :: (nat, nat) Bridge)
    in asDiagnostics sv [1, 2] = Resolved [2, 3] \<and> asDiagnostics sv [] = Resolved [] \<and>
       visible_diagnostics (diagnosticCollection (validationSettled sv (Resolved [1, 2]) s))
         MONACO_URI = [2, 3] \<and>
       visible_diagnostics
         (diagnosticCollection
            (validationSettled sv (Resolved []) (validationSettled sv (Resolved [1, 2]) s)))
         MONACO_URI = [])"
  using diagnostic_replace_not_merge
      [where ?D1.0 = "[2, 3]" and ?D2.0 = "[]" and ?p1.0 = "[1, 2]" and ?p2.0 = "[]"
         and services = "\<lparr>parseJSONDocument = \<lambda>d. (), doValidation = \<lambda>d j. Resolved ([] :: nat list),
               asDiagnostics = \<lambda>ds. Resolved (map Suc ds)\<rparr> :: (unit, nat, nat) Services"
         and s = "\<lparr>vscodeDocument = \<lparr>vs_uri = ''inmemory://model.json'', vs_languageId = ''json'',
                                vs_version = 2, vs_getText = ''{}''\<rparr>,
              pendingValidationRequests = [], timers = [], nextHandle = 3, now = 0,
              diagnosticCollection = [], inflight = [], trace = []\<rparr>"]
  by (simp add: Let_def visible_diagnostics_def diagnostics_set_def validationSettled_def)

text \<open>
  C6, hover missing-result handling. When the engine answers a hover request with an
  absent result, the promise returned by the hover adapter resolves, with what the
  conversion makes of the absent result; it is not rejected. With a conversion that
  passes an absent result through, the adapter resolves with no hover.
\<close>

theorem hover_missing_result:
  assumes "doHover (createDocument vd) (codeConverter_asPosition pos) (parse (createDocument vd))
             = Resolved None"
  shows "fst (provideHover parse doHover asHover vd pos) = Resolved (asHover None) \<and>
         (\<forall>reason. fst (provideHover parse doHover asHover vd pos) \<noteq> Rejected reason) \<and>
         (asHover None = None \<longrightarrow> fst (provideHover parse doHover asHover vd pos) = Resolved None)"
  using assms by (simp add: provideHover_def Let_def)

theorem hover_missing_result_witness:
  "fst (provideHover (\<lambda>d. ()) (\<lambda>d p j. Resolved (None :: string option)) (map_option length)
          \<lparr>vs_uri = ''inmemory://model.json'', vs_languageId = ''json'', vs_version = 1,
           vs_getText = ''{}''\<rparr>
          \<lparr>ed_line = 0, ed_character = 2\<rparr>) = Resolved None"
  using hover_missing_result
          [of "\<lambda>d p j. Resolved (None :: string option)"
              "\<lparr>vs_uri = ''inmemory://model.json'', vs_languageId = ''json'', vs_version = 1,
                vs_getText = ''{}''\<rparr>"
              "\<lparr>ed_line = 0, ed_character = 2\<rparr>" "\<lambda>d. ()" "map_option length"]
  by simp

text \<open>
  C7, transport failure propagation. The promise of a schema retrieval is rejected with
  the request's status text exactly when the request ends with the error event, and is
  resolved with the response text otherwise; the request is opened and sent once, with
  no second attempt.
\<close>

theorem transport_failure_propagation:
  assumes "network url = (event, xhr)"
  shows "fst (resolveSchema network url) =
           (if event = OnError then Rejected (statusText xhr) else Resolved (responseText xhr)) \<and>
         ((\<exists>reason. fst (resolveSchema network url) = Rejected reason) \<longleftrightarrow> event = OnError) \<and>
         snd (resolveSchema network url) = [XhrOpen ''GET'' url True, XhrSend] \<and>
         length (filter (\<lambda>c. c = XhrSend) (snd (resolveSchema network url))) = 1"
  using assms by (cases event) (simp_all add: resolveSchema_def)

theorem transport_failure_propagation_witness:
  "resolveSchema (\<lambda>u. (OnError, \<lparr>responseText = [], statusText = ''Not reachable''\<rparr>))
      ''http://json.schemastore.org/coffeelint''
     = (Rejected ''Not reachable'',
        [XhrOpen ''GET'' ''http://json.schemastore.org/coffeelint'' True, XhrSend]) \<and>
   fst (resolveSchema (\<lambda>u. (OnLoad, \<lparr>responseText = ''{}'', statusText = ''OK''\<rparr>))
      ''http://json.schemastore.org/coffeelint'') = Resolved ''{}''"
  using transport_failure_propagation
          [of "\<lambda>u. (OnError, \<lparr>responseText = [], statusText = ''Not reachable''\<rparr>)"
              "''http://json.schemastore.org/coffeelint''" OnError
              "\<lparr>responseText = [], statusText = ''Not reachable''\<rparr>"]
        transport_failure_propagation
          [of "\<lambda>u. (OnLoad, \<lparr>responseText = ''{}'', statusText = ''OK''\<rparr>)"
              "''http://json.schemastore.org/coffeelint''" OnLoad
              "\<lparr>responseText = ''{}'', statusText = ''OK''\<rparr>"]
  by (simp add: prod_eq_iff)

text \<open>
  C8, coordinate round-trip. For every position (line and character are natural numbers,
  so every position is valid), converting from editor space to service space and back
  gives the position itself, and likewise for ranges; the conversions are inverse to
  each other in the other order too.
\<close>

theorem coordinate_round_trip:
  "protocolConverter_asPosition (codeConverter_asPosition p) = p \<and>
   protocolConverter_asRange (codeConverter_asRange r) = r \<and>
   codeConverter_asPosition (protocolConverter_asPosition q) = q \<and>
   codeConverter_asRange (protocolConverter_asRange r') = r'"
  by (simp add: protocolConverter_asPosition_def codeConverter_asPosition_def
      protocolConverter_asRange_def codeConverter_asRange_def)

text \<open>
  C9, fixed snapshot URI. Whatever the URI of the editor document, the snapshot built
  from it has the URI \<open>MODEL_URI\<close>: every engine call of the completion, formatting,
  symbol and hover adapters is given such a snapshot, and in every reachable state so
  are the snapshots held by the timers, the snapshots validated and given to the engine
  so far, and every key of the pending-validation map is \<open>MODEL_URI\<close>.
\<close>

theorem fixed_snapshot_uri:
  fixes services :: "('j, 'sd, 'ed) Services" and s :: "('sd, 'ed) Bridge"
    and evs :: "Event list" and vd0 :: VscodeTextDocument
  defines "s \<equiv> run services evs (createEditor vd0)"
  shows "uri (createDocument vd) = MODEL_URI \<and>
         list_all (\<lambda>c. uri (call_document c) = MODEL_URI)
           (snd (provideCompletionItems parse doComplete asCompletionResult vd pos)) \<and>
         list_all (\<lambda>c. uri (call_document c) = MODEL_URI)
           (snd (provideDocumentRangeFormattingEdits format asFormattingOptions asTextEdits vd rng options)) \<and>
         list_all (\<lambda>c. uri (call_document c) = MODEL_URI)
           (snd (provideDocumentSymbols parse' findDocumentSymbols asSymbolInformations vd)) \<and>
         list_all (\<lambda>c. uri (call_document c) = MODEL_URI)
           (snd (provideHover parse'' doHover asHover vd pos')) \<and>
         list_all (\<lambda>t. uri (callback t) = MODEL_URI) (timers s) \<and>
         list_all (\<lambda>d. uri d = MODEL_URI) (trace_documents (trace s)) \<and>
         list_all (\<lambda>entry. fst entry = MODEL_URI) (pendingValidationRequests s)"
proof -
  have inv: "pending_invariant s"
    unfolding s_def by (rule inv_run) (rule inv_createEditor)
  have docs: "list_all (\<lambda>d. uri d = MODEL_URI) (trace_documents (trace s))"
    unfolding s_def by (rule documents_run) (rule inv_createEditor, rule documents_createEditor)
  have tm: "list_all (\<lambda>t. uri (callback t) = MODEL_URI) (timers s)"
    using inv by (auto simp: pending_invariant_def list_all_iff)
  have pd: "list_all (\<lambda>entry. fst entry = MODEL_URI) (pendingValidationRequests s)"
    using inv by (auto simp: pending_invariant_def list_all_iff)
  have adapters: "uri (createDocument vd) = MODEL_URI \<and>
         list_all (\<lambda>c. uri (call_document c) = MODEL_URI)
           (snd (provideCompletionItems parse doComplete asCompletionResult vd pos)) \<and>
         list_all (\<lambda>c. uri (call_document c) = MODEL_URI)
           (snd (provideDocumentRangeFormattingEdits format asFormattingOptions asTextEdits vd rng options)) \<and>
         list_all (\<lambda>c. uri (call_document c) = MODEL_URI)
           (snd (provideDocumentSymbols parse' findDocumentSymbols asSymbolInformations vd)) \<and>
         list_all (\<lambda>c. uri (call_document c) = MODEL_URI)
           (snd (provideHover parse'' doHover asHover vd pos'))"
    by (simp add: provideCompletionItems_def provideDocumentRangeFormattingEdits_def
        provideDocumentSymbols_def provideHover_def Let_def uri_createDocument)
  show ?thesis using adapters tm docs pd by simp
qed

theorem fixed_snapshot_uri_witness:
  "(let sv = (\<lparr>parseJSONDocument = \<lambda>d. (), doValidation = \<lambda>d j. Resolved ([] :: nat list),
               asDiagnostics = \<lambda>ds. Resolved ds\<rparr> :: (unit, nat, nat) Services);
        vd = \<lparr>vs_uri = ''file:///home/user/other.json'', vs_languageId = ''json'',
              vs_version = 4, vs_getText = ''{}''\<rparr>;
        s = (run sv [ContentChanged ''[]'', TimerFired 2] (createEditor vd) :: (nat, nat) Bridge)
    in vs_uri vd \<noteq> MODEL_URI \<and>
       uri (createDocument vd) = ''inmemory://model.json'' \<and>
       map (\<lambda>c. uri (call_document c))
         (snd (provideHover (\<lambda>d. ()) (\<lambda>d p j. Resolved (None :: string option)) (map_option length)
                 vd \<lparr>ed_line = 0, ed_character = 1\<rparr>))
         = [''inmemory://model.json'', ''inmemory://model.json''] \<and>
       map uri (trace_documents (trace s))
         = [''inmemory://model.json'', ''inmemory://model.json'', ''inmemory://model.json''] \<and>
       list_all (\<lambda>entry. fst entry = MODEL_URI) (pendingValidationRequests s))"
proof -
  let ?sv = "\<lparr>parseJSONDocument = \<lambda>d. (), doValidation = \<lambda>d j. Resolved ([] :: nat list),
               asDiagnostics = \<lambda>ds. Resolved ds\<rparr> :: (unit, nat, nat) Services"
  let ?vd = "\<lparr>vs_uri = ''file:///home/user/other.json'', vs_languageId = ''json'',
              vs_version = 4, vs_getText = ''{}''\<rparr>"
  let ?s = "run ?sv [ContentChanged ''[]'', TimerFired 2] (createEditor ?vd) :: (nat, nat) Bridge"
  have tr: "trace ?s =
      [SetTimeout 1 0, ClearTimeout 1, SetTimeout 2 0,
       ValidationPass \<lparr>uri = MODEL_URI, languageId = ''json'', version = 5, getText = ''[]''\<rparr>,
       Engine (ParseJSONDocument \<lparr>uri = MODEL_URI, languageId = ''json'', version = 5, getText = ''[]''\<rparr>),
       Engine (DoValidation \<lparr>uri = MODEL_URI, languageId = ''json'', version = 5, getText = ''[]''\<rparr>)]"
    by (simp add: createEditor_def step_def validate_def cleanPendingValidation_def
        setTimeout_def clearTimeout_def createDocument_def Let_def timerCallback_def
        doValidate_def)
  have docs: "map uri (trace_documents (trace ?s))
         = [''inmemory://model.json'', ''inmemory://model.json'', ''inmemory://model.json'']"
    unfolding tr by (simp add: trace_documents_def MODEL_URI_def)
  have hover: "map (\<lambda>c. uri (call_document c))
         (snd (provideHover (\<lambda>d. ()) (\<lambda>d p j. Resolved (None :: string option)) (map_option length)
                 ?vd \<lparr>ed_line = 0, ed_character = 1\<rparr>))
         = [''inmemory://model.json'', ''inmemory://model.json'']"
    by (simp add: provideHover_def createDocument_def MODEL_URI_def Let_def)
  have other: "vs_uri ?vd \<noteq> MODEL_URI" by (simp add: MODEL_URI_def)
  have snapshot: "uri (createDocument ?vd) = ''inmemory://model.json''"
    using fixed_snapshot_uri[THEN conjunct1, of ?vd] by (simp add: MODEL_URI_def)
  have keys: "list_all (\<lambda>entry. fst entry = MODEL_URI) (pendingValidationRequests ?s)"
    by (rule fixed_snapshot_uri[THEN conjunct2, THEN conjunct2, THEN conjunct2, THEN conjunct2,
          THEN conjunct2, THEN conjunct2, THEN conjunct2])
  show ?thesis
    unfolding Let_def using other snapshot hover docs keys by (intro conjI)
qed

text \<open>
  C10, diagnostics unchanged on engine failure. In a validation pass on a non-empty
  snapshot whose \<^verbatim>\<open>doValidation\<close> promise is rejected, or whose diagnostics the conversion
  rejects, the diagnostic collection is the same after the pass started and after the
  promise settled as it was before, and the pass makes no call to \<^verbatim>\<open>set\<close>: the trace
  gains the parse and the validation request and nothing else.
\<close>

theorem diagnostics_unchanged_on_engine_failure:
  assumes "length (getText document) \<noteq> 0"
    and "doValidation services document (parseJSONDocument services document) = Rejected e \<or>
         (doValidation services document (parseJSONDocument services document) = Resolved pDiagnostics \<and>
          asDiagnostics services pDiagnostics = Rejected e)"
  shows "diagnosticCollection (doValidate services document s) = diagnosticCollection s \<and>
         diagnosticCollection
           (step services (ValidationSettled (length (inflight s))) (doValidate services document s))
           = diagnosticCollection s \<and>
         trace (step services (ValidationSettled (length (inflight s))) (doValidate services document s))
           = trace s @ [ValidationPass document, Engine (ParseJSONDocument document),
                        Engine (DoValidation document)]"
  using assms by (auto simp: doValidate_def step_def validationSettled_def Let_def nth_append)

theorem diagnostics_unchanged_on_engine_failure_witness:
  "(let sv = (\<lparr>parseJSONDocument = \<lambda>d. (), doValidation = \<lambda>d j. Resolved [Suc 0],
               asDiagnostics = \<lambda>ds. Rejected ''conversion failed''\<rparr> :: (unit, nat, nat) Services);
        s = (\<lparr>vscodeDocument = \<lparr>vs_uri = ''inmemory://model.json'', vs_languageId = ''json'',
                                vs_version = 2, vs_getText = ''{ invalid }''\<rparr>,
              pendingValidationRequests = [], timers = [], nextHandle = 3, now = 0,
              diagnosticCollection = [(MONACO_URI, [7])], inflight = [], trace = []\<rparr>
             :: (nat, nat) Bridge);
        document = \<lparr>uri = MODEL_URI, languageId = ''json'', version = 2, getText = ''{ invalid }''\<rparr>
    in length (getText document) \<noteq> 0 \<and>
       doValidation sv document (parseJSONDocument sv document) = Resolved [Suc 0] \<and>
       asDiagnostics sv [Suc 0] = Rejected ''conversion failed'' \<and>
       diagnosticCollection (step sv (ValidationSettled 0) (doValidate sv document s))
         = [(MONACO_URI, [7])])"
proof -
  let ?sv = "\<lparr>parseJSONDocument = \<lambda>d. (), doValidation = \<lambda>d j. Resolved [Suc 0],
               asDiagnostics = \<lambda>ds. Rejected ''conversion failed''\<rparr> :: (unit, nat, nat) Services"
  let ?s = "\<lparr>vscodeDocument = \<lparr>vs_uri = ''inmemory://model.json'', vs_languageId = ''json'',
                                vs_version = 2, vs_getText = ''{ invalid }''\<rparr>,
              pendingValidationRequests = [], timers = [], nextHandle = 3, now = 0,
              diagnosticCollection = [(MONACO_URI, [7])], inflight = [], trace = []\<rparr>
             :: (nat, nat) Bridge"
  let ?d = "\<lparr>uri = MODEL_URI, languageId = ''json'', version = 2, getText = ''{ invalid }''\<rparr>"
  have nonempty: "length (getText ?d) \<noteq> 0" by simp
  have fails: "doValidation ?sv ?d (parseJSONDocument ?sv ?d) = Rejected ''conversion failed'' \<or>
         (doValidation ?sv ?d (parseJSONDocument ?sv ?d) = Resolved [Suc 0] \<and>
          asDiagnostics ?sv [Suc 0] = Rejected ''conversion failed'')"
    by simp
  show ?thesis
    using diagnostics_unchanged_on_engine_failure[OF nonempty fails, of ?s] nonempty
    by (simp add: Let_def)
qed

end
